theory Spec2Isabelle
  imports Main "HOL-Library.Word"
begin

section \<open>Entities of the project database\<close>

text \<open>
  The entity classes \<open>Server\<close>, \<open>Beacon\<close>, \<open>Host\<close> come from the models package; the
  resolvers read and write the fields below. A relation is held by the id of the row it
  points at. The enum \<open>ServerType\<close> is a type parameter \<open>'t\<close>. The nullable columns
  (\<open>displayName\<close>, a beacon's \<open>host\<close>) are options, \<open>None\<close> standing for
  \<open>undefined\<close>/\<open>null\<close>.
\<close>

record 't ServerMeta =
  meta_type :: 't

record 't Server =
  srv_id :: string
  srv_name :: string
  srv_displayName :: "string option"
  srv_parsingPath :: string
  srv_hidden :: bool
  srv_meta :: "'t ServerMeta"

record Beacon =
  bcn_id :: string
  bcn_displayName :: "string option"
  bcn_hidden :: bool
  bcn_host :: "string option"
  bcn_server :: string

record Host =
  host_id :: string
  host_displayName :: "string option"
  host_hidden :: bool
  host_cobaltStrikeServer :: bool

text \<open>The per-campaign database: one list of rows per entity.\<close>

record 't ProjectDb =
  server_rows :: "'t Server list"
  beacon_rows :: "Beacon list"
  host_rows :: "Host list"

text \<open>The main database: the global operators (by id) and the campaigns.\<close>

record Campaign =
  camp_id :: string
  camp_lastOpenedBy :: "string option"

record MainDb =
  operator_rows :: "string list"
  campaign_rows :: "Campaign list"

text \<open>The signals sent to the cache manager \<open>ctx.cm\<close>, in the order they were sent.\<close>

datatype signal = ForkMain | ForkProject string

record 't GraphQLContext =
  projects :: "string \<rightharpoonup> 't ProjectDb"
  mainEm :: "MainDb option"
  cm :: "signal list"

datatype error = NotFoundError | ConnectionError | TypeError | ParserError

section \<open>The entity manager\<close>

text \<open>
  The calls of the object-relational mapper that the resolvers make, on lists of rows.
  A \<open>where\<close> object is a predicate on rows, the data of an update a function on rows.
\<close>

definition findOne :: "('a \<Rightarrow> string) \<Rightarrow> 'a list \<Rightarrow> string \<Rightarrow> 'a option" where
  "findOne key rows k = find (\<lambda>r. key r = k) rows"

definition findOneOrFail :: "('a \<Rightarrow> string) \<Rightarrow> 'a list \<Rightarrow> string \<Rightarrow> error + 'a" where
  "findOneOrFail key rows k =
     (case findOne key rows k of None \<Rightarrow> Inl NotFoundError | Some r \<Rightarrow> Inr r)"

definition nativeUpdate :: "('a \<Rightarrow> bool) \<Rightarrow> ('a \<Rightarrow> 'a) \<Rightarrow> 'a list \<Rightarrow> 'a list" where
  "nativeUpdate cond upd rows = map (\<lambda>r. if cond r then upd r else r) rows"

text \<open>\<open>em.persistAndFlush(server)\<close> for a server that was loaded: its row is written back.\<close>

definition persistAndFlush :: "'t Server \<Rightarrow> 't ProjectDb \<Rightarrow> 't ProjectDb" where
  "persistAndFlush server em =
     em\<lparr>server_rows := nativeUpdate (\<lambda>r. srv_id r = srv_id server) (\<lambda>_. server) (server_rows em)\<rparr>"

text \<open>
  \<open>server.beacons.init({ where })\<close>: the collection is loaded with the beacons whose
  \<open>server\<close> is the owner and that satisfy \<open>where\<close>.
\<close>

definition beacons_init :: "'t Server \<Rightarrow> (Beacon \<Rightarrow> bool) \<Rightarrow> 't ProjectDb \<Rightarrow> Beacon list" where
  "beacons_init server cond em =
     filter (\<lambda>b. bcn_server b = srv_id server \<and> cond b) (beacon_rows em)"

text \<open>
  Modelled from the spec: \<open>connectToProjectEmOrFail\<close> of \<open>utils/project-db\<close>, which
  "opens/returns a per-campaign database connection handle on demand" and fails
  when the campaign id does not resolve.
\<close>

definition connectToProjectEmOrFail :: "string \<Rightarrow> 't GraphQLContext \<Rightarrow> error + 't ProjectDb" where
  "connectToProjectEmOrFail campaignId ctx =
     (case projects ctx campaignId of None \<Rightarrow> Inl ConnectionError | Some em \<Rightarrow> Inr em)"

definition forkProject :: "string \<Rightarrow> 't GraphQLContext \<Rightarrow> 't GraphQLContext" where
  "forkProject campaignId ctx = ctx\<lparr>cm := cm ctx @ [ForkProject campaignId]\<rparr>"

definition forkMain :: "'t GraphQLContext \<Rightarrow> 't GraphQLContext" where
  "forkMain ctx = ctx\<lparr>cm := cm ctx @ [ForkMain]\<rparr>"

text \<open>The resolver's writes to the project database reach the context.\<close>

definition flushed :: "string \<Rightarrow> 't ProjectDb \<Rightarrow> 't GraphQLContext \<Rightarrow> 't GraphQLContext" where
  "flushed campaignId em ctx = ctx\<lparr>projects := (projects ctx)(campaignId \<mapsto> em)\<rparr>"

section \<open>toggleServerHidden\<close>

text \<open>
  The loop over \<open>server.beacons\<close>: two native updates per beacon, the beacon by its id
  and the host by the id of \<open>beacon.host\<close>. A beacon without a host gives the condition
  \<open>{ id: undefined }\<close>, which is taken to match no host.
\<close>

fun toggle_loop :: "bool \<Rightarrow> Beacon list \<Rightarrow> 't ProjectDb \<Rightarrow> 't ProjectDb" where
  "toggle_loop h [] em = em"
| "toggle_loop h (beacon # rest) em =
     toggle_loop h rest
       (em\<lparr>beacon_rows :=
              nativeUpdate (\<lambda>b. bcn_id b = bcn_id beacon) (\<lambda>b. b\<lparr>bcn_hidden := h\<rparr>) (beacon_rows em),
            host_rows :=
              nativeUpdate (\<lambda>x. Some (host_id x) = bcn_host beacon) (\<lambda>x. x\<lparr>host_hidden := h\<rparr>)
                (host_rows em)\<rparr>)"

definition toggleServerHidden ::
  "'t GraphQLContext \<Rightarrow> string \<Rightarrow> string \<Rightarrow> error + ('t Server \<times> 't GraphQLContext)" where
  "toggleServerHidden ctx campaignId serverId =
     (case connectToProjectEmOrFail campaignId ctx of
        Inl e \<Rightarrow> Inl e
      | Inr em \<Rightarrow>
          (case findOneOrFail srv_id (server_rows em) serverId of
             Inl e \<Rightarrow> Inl e
           | Inr found \<Rightarrow>
               (let server = found\<lparr>srv_hidden := \<not> srv_hidden found\<rparr>;
                    beacons = beacons_init server (\<lambda>_. True) em;
                    em1 = toggle_loop (srv_hidden server) beacons em;
                    em2 = persistAndFlush server em1
                in Inr (server, forkProject campaignId (flushed campaignId em2 ctx)))))"

section \<open>servers\<close>

text \<open>\<open>getMainEmOrFail\<close>: the main entity manager of the context, or an error.\<close>

definition getMainEmOrFail :: "'t GraphQLContext \<Rightarrow> error + MainDb" where
  "getMainEmOrFail ctx = (case mainEm ctx of None \<Rightarrow> Inl ConnectionError | Some em \<Rightarrow> Inr em)"

text \<open>
  Modelled from the spec: \<open>OperatorResolvers.createGlobalOperatorHandler\<close>, by which the
  query "ensures an operator record exists for \<open>username\<close> (creating one if absent)".
\<close>

definition createGlobalOperatorHandler :: "string \<Rightarrow> MainDb \<Rightarrow> string \<times> MainDb" where
  "createGlobalOperatorHandler username em =
     (username, em\<lparr>operator_rows := operator_rows em @ [username]\<rparr>)"

text \<open>
  \<open>projectEm.find(Server, !hidden ? { hidden, beacons: { hidden } } : {})\<close>: a condition on
  the to-many relation \<open>beacons\<close> holds of a server when one of its beacons satisfies it.
\<close>

definition find_servers :: "bool \<Rightarrow> 't ProjectDb \<Rightarrow> 't Server list" where
  "find_servers hidden em =
     filter
       (if \<not> hidden
        then (\<lambda>s. srv_hidden s = hidden \<and>
                   (\<exists>b \<in> set (beacon_rows em). bcn_server b = srv_id s \<and> bcn_hidden b = hidden))
        else (\<lambda>_. True))
       (server_rows em)"

text \<open>
  The query returns each server with its loaded \<open>beacons\<close> collection. The update of
  \<open>Campaign.lastOpenedBy\<close> stands in a \<open>try\<close> whose \<open>catch\<close> only logs.
\<close>

definition servers ::
  "'t GraphQLContext \<Rightarrow> string \<Rightarrow> string \<Rightarrow> bool \<Rightarrow>
     error + (('t Server \<times> Beacon list) list \<times> 't GraphQLContext)" where
  "servers ctx campaignId username hidden =
     (case connectToProjectEmOrFail campaignId ctx of
        Inl e \<Rightarrow> Inl e
      | Inr projectEm \<Rightarrow>
          (case getMainEmOrFail ctx of
             Inl e \<Rightarrow> Inl e
           | Inr em \<Rightarrow>
               (let (operator, em1) =
                      (case findOne (\<lambda>x. x) (operator_rows em) username of
                         None \<Rightarrow> createGlobalOperatorHandler username em
                       | Some operator \<Rightarrow> (operator, em));
                    em2 = em1\<lparr>campaign_rows :=
                            nativeUpdate (\<lambda>c. camp_id c = campaignId)
                              (\<lambda>c. c\<lparr>camp_lastOpenedBy := Some operator\<rparr>) (campaign_rows em1)\<rparr>;
                    found = find_servers hidden projectEm;
                    loaded =
                      map (\<lambda>server.
                             (server,
                              beacons_init server
                                (if \<not> hidden then (\<lambda>b. bcn_hidden b = hidden) else (\<lambda>_. True))
                                projectEm))
                        found
                in Inr (loaded, forkMain (ctx\<lparr>mainEm := Some em2\<rparr>)))))"

section \<open>updateServerMetadata and serverUpdate\<close>

text \<open>
  \<open>if (v) ...\<close> on an optional string: the branch is taken when \<open>v\<close> is given and is
  not the empty string.
\<close>

definition when_truthy :: "string option \<Rightarrow> (string \<Rightarrow> 'a \<Rightarrow> 'a) \<Rightarrow> 'a \<Rightarrow> 'a" where
  "when_truthy v f x = (case v of None \<Rightarrow> x | Some s \<Rightarrow> if s = [] then x else f s x)"

text \<open>
  The enum \<open>ServerType\<close> is declared in the models package; which of its members are
  truthy is the parameter \<open>truthy\<close>.
\<close>

definition updateServerMetadata ::
  "('t \<Rightarrow> bool) \<Rightarrow> 't GraphQLContext \<Rightarrow> string \<Rightarrow> string \<Rightarrow> string option \<Rightarrow> 't option \<Rightarrow>
     error + ('t Server \<times> 't GraphQLContext)" where
  "updateServerMetadata truthy ctx serverId campaignId serverDisplayName serverType =
     (case connectToProjectEmOrFail campaignId ctx of
        Inl e \<Rightarrow> Inl e
      | Inr em \<Rightarrow>
          (case findOneOrFail srv_id (server_rows em) serverId of
             Inl e \<Rightarrow> Inl e
           | Inr found \<Rightarrow>
               (let (server1, em2) =
                      when_truthy serverDisplayName
                        (\<lambda>n (server, em0).
                           (let em1 = em0\<lparr>beacon_rows :=
                                  nativeUpdate
                                    (\<lambda>b. (\<exists>h \<in> set (host_rows em0).
                                              Some (host_id h) = bcn_host b \<and> host_cobaltStrikeServer h) \<and>
                                          bcn_server b = serverId)
                                    (\<lambda>b. b\<lparr>bcn_displayName := Some n\<rparr>) (beacon_rows em0)\<rparr>
                            in (server\<lparr>srv_displayName := Some n\<rparr>,
                                em1\<lparr>host_rows :=
                                  nativeUpdate
                                    (\<lambda>h. host_cobaltStrikeServer h \<and>
                                          (\<exists>b \<in> set (beacon_rows em1).
                                              bcn_host b = Some (host_id h) \<and> bcn_server b = serverId))
                                    (\<lambda>h. h\<lparr>host_displayName := Some n\<rparr>) (host_rows em1)\<rparr>)))
                        (found, em);
                    server2 =
                      (case serverType of
                         None \<Rightarrow> server1
                       | Some t \<Rightarrow>
                           if truthy t then server1\<lparr>srv_meta := (srv_meta server1)\<lparr>meta_type := t\<rparr>\<rparr>
                           else server1)
                in Inr (server2, flushed campaignId (persistAndFlush server2 em2) ctx))))"

record ServerUpdateInput =
  in_parsingPath :: "string option"
  in_name :: "string option"
  in_displayName :: "string option"

definition serverUpdate ::
  "'t GraphQLContext \<Rightarrow> string \<Rightarrow> string \<Rightarrow> ServerUpdateInput \<Rightarrow>
     error + ('t Server \<times> 't GraphQLContext)" where
  "serverUpdate ctx campaignId serverId input =
     (case connectToProjectEmOrFail campaignId ctx of
        Inl e \<Rightarrow> Inl e
      | Inr em \<Rightarrow>
          (case findOneOrFail srv_id (server_rows em) serverId of
             Inl e \<Rightarrow> Inl e
           | Inr found \<Rightarrow>
               (let server1 = when_truthy (in_parsingPath input) (\<lambda>p s. s\<lparr>srv_parsingPath := p\<rparr>) found;
                    server2 = when_truthy (in_name input) (\<lambda>n s. s\<lparr>srv_name := n\<rparr>) server1;
                    server3 = when_truthy (in_displayName input) (\<lambda>d s. s\<lparr>srv_displayName := Some d\<rparr>) server2
                in Inr (server3,
                        forkProject campaignId (flushed campaignId (persistAndFlush server3 em) ctx)))))"

section \<open>Strings and paths\<close>

text \<open>
  The strings of the endpoint are JavaScript strings: lists of UTF-16 code units.
  \<open>js\<close> writes a literal.
\<close>

type_synonym code_unit = "16 word"

type_synonym js_string = "code_unit list"

definition unit_of :: "char \<Rightarrow> code_unit" where
  "unit_of c = of_nat (of_char c)"

definition js :: "string \<Rightarrow> js_string" where
  "js s = map unit_of s"

text \<open>\<open>name.replace(/:/gi, '/')\<close>: every colon becomes a slash.\<close>

definition replace_colons :: "js_string \<Rightarrow> js_string" where
  "replace_colons s = map (\<lambda>c. if c = unit_of CHR '':'' then unit_of CHR ''/'' else c) s"

text \<open>\<open>s.split(sep)\<close> for a separator of one code unit; the result is never empty.\<close>

fun split_on :: "'a \<Rightarrow> 'a list \<Rightarrow> 'a list list" where
  "split_on sep [] = [[]]"
| "split_on sep (c # cs) =
     (if c = sep then [] # split_on sep cs
      else (case split_on sep cs of [] \<Rightarrow> [[c]] | seg # segs \<Rightarrow> (c # seg) # segs))"

text \<open>
  The class \<open>\s\<close> of a regular expression without the \<open>u\<close> flag, code unit by code
  unit: the white space and the line terminators of the language. These are tab, line
  feed, vertical tab, form feed, carriage return, space, no-break space, U+1680,
  U+2000 to U+200A, U+2028, U+2029, U+202F, U+205F, U+3000 and U+FEFF.
\<close>

definition is_space :: "code_unit \<Rightarrow> bool" where
  "is_space c =
     (c \<in> {0x9, 0xA, 0xB, 0xC, 0xD, 0x20, 0xA0, 0x1680, 0x2028, 0x2029, 0x202F, 0x205F,
            0x3000, 0xFEFF} \<or>
      (0x2000 \<le> c \<and> c \<le> 0x200A))"

text \<open>
  \<open>s.replace(/(\s+)/g, '\\$1')\<close>: one backslash before every maximal run of white
  space. The flag tells whether the previous code unit was white space.
\<close>

fun escape_from :: "bool \<Rightarrow> js_string \<Rightarrow> js_string" where
  "escape_from in_run [] = []"
| "escape_from in_run (c # cs) =
     (if is_space c then (if in_run then c # escape_from True cs
                          else unit_of (CHR 0x5C) # c # escape_from True cs)
      else c # escape_from False cs)"

definition escape_whitespace :: "js_string \<Rightarrow> js_string" where
  "escape_whitespace s = escape_from False s"

text \<open>
  \<open>path.join\<close> of Node, POSIX flavour, for two arguments: the non-empty arguments are
  joined by a slash and the result is normalized. \<open>normalize_segments\<close> is the loop of
  \<open>normalizeString\<close>, read on the segments between slashes: empty segments and \<open>.\<close>
  are dropped, \<open>..\<close> removes the segment before it (or stays, above the root of a
  relative path).
\<close>

fun normalize_segments :: "bool \<Rightarrow> js_string list \<Rightarrow> js_string list \<Rightarrow> js_string list" where
  "normalize_segments allowAboveRoot res [] = res"
| "normalize_segments allowAboveRoot res (seg # segs) =
     normalize_segments allowAboveRoot
       (if seg = [] \<or> seg = js ''.'' then res
        else if seg = js ''..'' then
          (if res \<noteq> [] \<and> last res \<noteq> js ''..'' then butlast res
           else if allowAboveRoot then res @ [js ''..''] else res)
        else res @ [seg])
       segs"

fun join_segments :: "js_string list \<Rightarrow> js_string" where
  "join_segments [] = []"
| "join_segments [seg] = seg"
| "join_segments (seg # segs) = seg @ js ''/'' @ join_segments segs"

definition path_normalize :: "js_string \<Rightarrow> js_string" where
  "path_normalize p =
     (if p = [] then js ''.''
      else
        (let isAbsolute = (hd p = unit_of CHR ''/'');
             trailingSeparator = (last p = unit_of CHR ''/'');
             q = join_segments (normalize_segments (\<not> isAbsolute) [] (split_on (unit_of CHR ''/'') p))
         in if q = [] then (if isAbsolute then js ''/'' else if trailingSeparator then js ''./'' else js ''.'')
            else (if isAbsolute then js ''/'' else []) @ q @ (if trailingSeparator then js ''/'' else [])))"

definition path_join :: "js_string \<Rightarrow> js_string \<Rightarrow> js_string" where
  "path_join a b =
     (if a = [] \<and> b = [] then js ''.''
      else path_normalize (if a = [] then b else if b = [] then a else a @ js ''/'' @ b))"

section \<open>The endpoint POST /parser/:parserName/validate-files\<close>

record UploadedFile =
  file_name :: js_string

text \<open>\<open>req.files.file\<close> is one file or an array of files.\<close>

datatype FileField = OneFile UploadedFile | FileArray "UploadedFile list"

record Request =
  req_parserName :: js_string
  req_files :: "(js_string \<rightharpoonup> FileField) option"

text \<open>
  \<open>context.parserInfo\<close> is an object whose own properties are the installed parsers.
  The read \<open>context.parserInfo[parserName]\<close> finds an own property first and then a
  member that every object inherits from \<open>Object.prototype\<close>; it is \<open>undefined\<close>
  for any other name. What it finds is an object or a function, hence truthy.
\<close>

definition object_prototype_members :: "js_string list" where
  "object_prototype_members =
     map js [''constructor'', ''__defineGetter__'', ''__defineSetter__'', ''hasOwnProperty'',
             ''__lookupGetter__'', ''__lookupSetter__'', ''isPrototypeOf'',
             ''propertyIsEnumerable'', ''toString'', ''valueOf'', ''__proto__'',
             ''toLocaleString'']"

datatype 'p property = Own 'p | Inherited

definition get_property :: "(js_string \<rightharpoonup> 'p) \<Rightarrow> js_string \<Rightarrow> 'p property option" where
  "get_property obj key =
     (case obj key of
        Some p \<Rightarrow> Some (Own p)
      | None \<Rightarrow> if key \<in> set object_prototype_members then Some Inherited else None)"

text \<open>What the handler does to the world, in order, and what it answers.\<close>

datatype effect =
    MkTempDir js_string
  | MoveFile js_string js_string
  | InvokeParser js_string "js_string list"
  | RmTempDir js_string

datatype 'r body = Msg js_string | Payload 'r

datatype 'r reply = Response nat "'r body" | Unhandled error

text \<open>
  Modelled from the spec: \<open>withTempDir\<close> of \<open>../util\<close>: "the temporary directory is
  scoped: created before the parser invocation and guaranteed removed after, regardless of
  success or failure of the invocation". The directory the system hands out is \<open>dir\<close>;
  the callback's result or error is passed on.
\<close>

definition withTempDir ::
  "js_string \<Rightarrow> (js_string \<Rightarrow> (error + 'a) \<times> effect list) \<Rightarrow> (error + 'a) \<times> effect list" where
  "withTempDir dir fn = (let (r, effs) = fn dir in (r, [MkTempDir dir] @ effs @ [RmTempDir dir]))"

text \<open>
  \<open>files.map((file) => file.mv(path.join(dir, file.name.replace(/:/gi, '/'))))\<close>: the
  moves started, and whether every element was a file (reading \<open>name\<close> of
  \<open>undefined\<close> throws). \<open>Promise.allSettled\<close> waits for the moves and ignores their
  outcome.
\<close>

fun move_files :: "js_string \<Rightarrow> UploadedFile option list \<Rightarrow> effect list \<times> bool" where
  "move_files dir [] = ([], True)"
| "move_files dir (None # files) = ([], False)"
| "move_files dir (Some file # files) =
     (let (effs, ok) = move_files dir files
      in (MoveFile (file_name file) (path_join dir (replace_colons (file_name file))) # effs, ok))"

text \<open>
  The callback given to \<open>withTempDir\<close>. \<open>invokeParser\<close> of the parser service is a
  parameter: it returns what the external tool reports, or fails.
\<close>

definition stage_and_validate ::
  "(js_string \<Rightarrow> js_string list \<Rightarrow> error + 'r) \<Rightarrow> js_string \<Rightarrow> UploadedFile option list \<Rightarrow>
     js_string \<Rightarrow> (error + 'r) \<times> effect list" where
  "stage_and_validate invokeParser parserName files dir =
     (case files of
        [] \<Rightarrow> (Inl TypeError, [])
      | None # _ \<Rightarrow> (Inl TypeError, [])
      | Some first # _ \<Rightarrow>
          (let rootDir = split_on (unit_of CHR ''/'') (replace_colons (file_name first));
               (moves, ok) = move_files dir files
           in if \<not> ok then (Inl TypeError, moves)
              else
                (let args = [js ''validate-files'', js ''--folder'',
                             escape_whitespace (path_join dir (hd rootDir))]
                 in (invokeParser parserName args, moves @ [InvokeParser parserName args]))))"

definition parserFileValidation ::
  "(js_string \<rightharpoonup> 'p) \<Rightarrow> (js_string \<Rightarrow> js_string list \<Rightarrow> error + 'r) \<Rightarrow> js_string \<Rightarrow> Request \<Rightarrow>
     'r reply \<times> effect list" where
  "parserFileValidation parserInfo invokeParser dir req =
     (let parserName = req_parserName req in
      case get_property parserInfo parserName of
        None \<Rightarrow>
          (Response 400 (Msg (js ''Parser '' @ parserName @ js '' is not available'')), [])
      | Some parser \<Rightarrow>
          (case req_files req of
             None \<Rightarrow> (Response 500 (Msg (js ''No files provided'')), [])
           | Some uploaded \<Rightarrow>
               (let files = (case uploaded (js ''file'') of
                               Some (FileArray fs) \<Rightarrow> map Some fs
                             | Some (OneFile f) \<Rightarrow> [Some f]
                             | None \<Rightarrow> [None]);
                    (validated, effs) =
                      withTempDir dir (stage_and_validate invokeParser parserName files)
                in (case validated of
                      Inl e \<Rightarrow> (Unhandled e, effs)
                    | Inr v \<Rightarrow> (Response 200 (Payload v), effs)))))"

section \<open>CommentsList\<close>

record PresentationItem =
  item_id :: string
  item_key :: string
  item_commandCount :: nat
  item_count :: nat

datatype icon = StarFilled16 | Hashtag16 | Playlist16 | User16

definition getIcon :: "string \<Rightarrow> icon" where
  "getIcon itemId =
     (if itemId = ''favorited'' then StarFilled16
      else if itemId = ''procedural'' then Playlist16
      else if take 5 itemId = ''user-'' then User16
      else Hashtag16)"

definition rowTitle :: "PresentationItem \<Rightarrow> string" where
  "rowTitle presentationItem =
     (if take 1 (item_key presentationItem) = ''#'' then drop 1 (item_key presentationItem)
      else if take 5 (item_key presentationItem) = ''user-'' then drop 5 (item_key presentationItem)
      else item_key presentationItem)"

text \<open>
  One \<open>InfoRow\<close>: the leading \<open>CarbonIcon\<close>s (none for the item \<open>all\<close>), whether the
  icon has the disabled colour, the \<open>Txt\<close> flags and content, and the two counters.
\<close>

record InfoRow =
  row_icons :: "icon list"
  row_icon_disabled :: bool
  row_bold :: bool
  row_muted :: bool
  row_italic :: bool
  row_title :: string
  row_commands :: nat
  row_comments :: nat

definition render_row :: "PresentationItem \<Rightarrow> InfoRow" where
  "render_row presentationItem =
     \<lparr>row_icons = (if item_id presentationItem \<noteq> ''all'' then [getIcon (item_id presentationItem)] else []),
      row_icon_disabled = (item_id presentationItem = ''procedural''),
      row_bold = (item_id presentationItem \<in> set [''all'', ''favorited'']),
      row_muted = (item_id presentationItem = ''procedural''),
      row_italic = (item_id presentationItem = ''procedural''),
      row_title = rowTitle presentationItem,
      row_commands = item_commandCount presentationItem,
      row_comments = item_count presentationItem\<rparr>"

definition CommentsList :: "PresentationItem list \<Rightarrow> InfoRow list" where
  "CommentsList presentationItems = map render_row presentationItems"

section \<open>A small campaign\<close>

text \<open>
  One campaign \<open>c1\<close> with two servers. Server \<open>s1\<close> is visible and has a hidden beacon
  \<open>b1\<close> on host \<open>h1\<close> and a visible beacon \<open>b2\<close> without a host; server \<open>s2\<close> is visible
  and its only beacon \<open>b3\<close> is hidden.
\<close>

definition ex_server1 :: "string Server" where
  "ex_server1 = \<lparr>srv_id = ''s1'', srv_name = ''A'', srv_displayName = Some ''B'',
     srv_parsingPath = ''C'', srv_hidden = False, srv_meta = \<lparr>meta_type = ''http''\<rparr>\<rparr>"

definition ex_server2 :: "string Server" where
  "ex_server2 = \<lparr>srv_id = ''s2'', srv_name = ''D'', srv_displayName = None,
     srv_parsingPath = ''E'', srv_hidden = False, srv_meta = \<lparr>meta_type = ''smb''\<rparr>\<rparr>"

definition ex_beacon1 :: Beacon where
  "ex_beacon1 = \<lparr>bcn_id = ''b1'', bcn_displayName = Some ''one'', bcn_hidden = True,
     bcn_host = Some ''h1'', bcn_server = ''s1''\<rparr>"

definition ex_beacon2 :: Beacon where
  "ex_beacon2 = \<lparr>bcn_id = ''b2'', bcn_displayName = None, bcn_hidden = False,
     bcn_host = None, bcn_server = ''s1''\<rparr>"

definition ex_beacon3 :: Beacon where
  "ex_beacon3 = \<lparr>bcn_id = ''b3'', bcn_displayName = None, bcn_hidden = True,
     bcn_host = Some ''h2'', bcn_server = ''s2''\<rparr>"

definition ex_host1 :: Host where
  "ex_host1 = \<lparr>host_id = ''h1'', host_displayName = Some ''first'', host_hidden = False,
     host_cobaltStrikeServer = True\<rparr>"

definition ex_host2 :: Host where
  "ex_host2 = \<lparr>host_id = ''h2'', host_displayName = None, host_hidden = False,
     host_cobaltStrikeServer = False\<rparr>"

definition ex_em :: "string ProjectDb" where
  "ex_em = \<lparr>server_rows = [ex_server1, ex_server2],
     beacon_rows = [ex_beacon1, ex_beacon2, ex_beacon3],
     host_rows = [ex_host1, ex_host2]\<rparr>"

definition ex_main :: MainDb where
  "ex_main = \<lparr>operator_rows = [''alice''],
     campaign_rows = [\<lparr>camp_id = ''c1'', camp_lastOpenedBy = None\<rparr>]\<rparr>"

definition ex_ctx :: "string GraphQLContext" where
  "ex_ctx = \<lparr>projects = [''c1'' \<mapsto> ex_em], mainEm = Some ex_main, cm = []\<rparr>"

text \<open>The campaign after one call of \<open>toggleServerHidden\<close> on \<open>s1\<close>, and after two.\<close>

definition ex_em1 :: "string ProjectDb" where
  "ex_em1 = \<lparr>server_rows = [ex_server1\<lparr>srv_hidden := True\<rparr>, ex_server2],
     beacon_rows = [ex_beacon1, ex_beacon2\<lparr>bcn_hidden := True\<rparr>, ex_beacon3],
     host_rows = [ex_host1\<lparr>host_hidden := True\<rparr>, ex_host2]\<rparr>"

definition ex_ctx1 :: "string GraphQLContext" where
  "ex_ctx1 = \<lparr>projects = [''c1'' \<mapsto> ex_em1], mainEm = Some ex_main, cm = [ForkProject ''c1'']\<rparr>"

definition ex_em2 :: "string ProjectDb" where
  "ex_em2 = \<lparr>server_rows = [ex_server1, ex_server2],
     beacon_rows = [ex_beacon1\<lparr>bcn_hidden := False\<rparr>, ex_beacon2, ex_beacon3],
     host_rows = [ex_host1, ex_host2]\<rparr>"

definition ex_ctx2 :: "string GraphQLContext" where
  "ex_ctx2 = \<lparr>projects = [''c1'' \<mapsto> ex_em2], mainEm = Some ex_main,
     cm = [ForkProject ''c1'', ForkProject ''c1'']\<rparr>"

text \<open>The context after \<open>alice\<close> has listed the servers of \<open>c1\<close>.\<close>

definition ex_ctx_opened :: "string GraphQLContext" where
  "ex_ctx_opened = \<lparr>projects = [''c1'' \<mapsto> ex_em],
     mainEm = Some \<lparr>operator_rows = [''alice''],
       campaign_rows = [\<lparr>camp_id = ''c1'', camp_lastOpenedBy = Some ''alice''\<rparr>]\<rparr>,
     cm = [ForkMain]\<rparr>"

section \<open>Some requests\<close>

text \<open>
  One parser is installed. The first request uploads two files of a folder
  \<open>my logs\<close>; the second a file whose name climbs out of the directory it is joined
  to; the third uploads under another field name; the next two name a parser that is not
  installed and upload nothing; the last two name members of \<open>Object.prototype\<close>.
\<close>

definition ex_parserInfo :: "js_string \<rightharpoonup> unit" where
  "ex_parserInfo = [js ''cobalt-strike-parser'' \<mapsto> ()]"

definition ex_invokeParser :: "js_string \<Rightarrow> js_string list \<Rightarrow> error + string" where
  "ex_invokeParser parserName args = Inr ''valid''"

definition ex_failingParser :: "js_string \<Rightarrow> js_string list \<Rightarrow> error + string" where
  "ex_failingParser parserName args = Inl ParserError"

definition ex_file1 :: UploadedFile where
  "ex_file1 = \<lparr>file_name = js ''my logs:200101:beacon_1.log''\<rparr>"

definition ex_file2 :: UploadedFile where
  "ex_file2 = \<lparr>file_name = js ''my logs:200101:events.log''\<rparr>"

definition ex_request :: Request where
  "ex_request = \<lparr>req_parserName = js ''cobalt-strike-parser'',
     req_files = Some [js ''file'' \<mapsto> FileArray [ex_file1, ex_file2]]\<rparr>"

definition ex_request_dotdot :: Request where
  "ex_request_dotdot = \<lparr>req_parserName = js ''cobalt-strike-parser'',
     req_files = Some [js ''file'' \<mapsto> OneFile \<lparr>file_name = js ''..:evil.log''\<rparr>]\<rparr>"

definition ex_request_other_field :: Request where
  "ex_request_other_field = \<lparr>req_parserName = js ''cobalt-strike-parser'',
     req_files = Some [js ''upload'' \<mapsto> OneFile \<lparr>file_name = js ''a.log''\<rparr>]\<rparr>"

definition ex_request_unknown :: Request where
  "ex_request_unknown = \<lparr>req_parserName = js ''nmap'', req_files = None\<rparr>"

definition ex_request_no_files :: Request where
  "ex_request_no_files = \<lparr>req_parserName = js ''cobalt-strike-parser'', req_files = None\<rparr>"

definition ex_request_toString :: Request where
  "ex_request_toString = \<lparr>req_parserName = js ''toString'', req_files = None\<rparr>"

definition ex_request_constructor :: Request where
  "ex_request_constructor = \<lparr>req_parserName = js ''constructor'',
     req_files = Some [js ''file'' \<mapsto> OneFile \<lparr>file_name = js ''a.log''\<rparr>]\<rparr>"

section \<open>Some presentation items\<close>

definition ex_item_bob :: PresentationItem where
  "ex_item_bob = \<lparr>item_id = ''user-alice'', item_key = ''user-bob'', item_commandCount = 3,
     item_count = 2\<rparr>"

definition ex_item_favorited :: PresentationItem where
  "ex_item_favorited = \<lparr>item_id = ''favorited'', item_key = ''Favorited Comments'',
     item_commandCount = 2, item_count = 1\<rparr>"

definition ex_item_procedural :: PresentationItem where
  "ex_item_procedural = \<lparr>item_id = ''procedural'', item_key = ''parser-generated'',
     item_commandCount = 4, item_count = 4\<rparr>"

definition ex_item_alice :: PresentationItem where
  "ex_item_alice = \<lparr>item_id = ''user-alice'', item_key = ''user-alice'', item_commandCount = 3,
     item_count = 2\<rparr>"

definition ex_items :: "PresentationItem list" where
  "ex_items =
     [\<lparr>item_id = ''all'', item_key = ''All Comments'', item_commandCount = 9, item_count = 7\<rparr>,
      ex_item_favorited, ex_item_procedural, ex_item_alice,
      \<lparr>item_id = ''GoldenTicket'', item_key = ''#GoldenTicket'', item_commandCount = 1, item_count = 1\<rparr>]"

section \<open>Facts about the entity manager\<close>

lemmas ex_defs = ex_server1_def ex_server2_def ex_beacon1_def ex_beacon2_def ex_beacon3_def
  ex_host1_def ex_host2_def ex_em_def ex_main_def ex_ctx_def ex_em1_def ex_ctx1_def
  ex_em2_def ex_ctx2_def ex_ctx_opened_def

lemma findOne_key: "findOne key rows k = Some r \<Longrightarrow> key r = k \<and> r \<in> set rows"
  unfolding findOne_def by (induction rows) (auto split: if_splits)

lemma toggle_loop_servers: "server_rows (toggle_loop h bs em) = server_rows em"
  by (induction bs arbitrary: em) auto

lemma toggle_loop_beacons:
  "beacon_rows (toggle_loop h bs em) =
     map (\<lambda>b. if bcn_id b \<in> bcn_id ` set bs then b\<lparr>bcn_hidden := h\<rparr> else b) (beacon_rows em)"
  by (induction bs arbitrary: em) (auto simp: nativeUpdate_def)

lemma toggle_loop_hosts:
  "host_rows (toggle_loop h bs em) =
     map (\<lambda>x. if Some (host_id x) \<in> bcn_host ` set bs then x\<lparr>host_hidden := h\<rparr> else x) (host_rows em)"
  by (induction bs arbitrary: em) (auto simp: nativeUpdate_def)

lemma findOne_nativeUpdate_const:
  "findOne key rows k = Some r \<Longrightarrow> key v = k \<Longrightarrow>
   findOne key (nativeUpdate (\<lambda>r. key r = k) (\<lambda>_. v) rows) k = Some v"
  unfolding findOne_def nativeUpdate_def by (induction rows) (auto split: if_splits)

text \<open>What a call that finds its campaign and its server returns.\<close>

lemma toggleServerHidden_result:
  assumes "projects ctx campaignId = Some em"
    and "findOne srv_id (server_rows em) serverId = Some found"
  shows "toggleServerHidden ctx campaignId serverId =
     Inr (found\<lparr>srv_hidden := \<not> srv_hidden found\<rparr>,
          forkProject campaignId (flushed campaignId
            (persistAndFlush (found\<lparr>srv_hidden := \<not> srv_hidden found\<rparr>)
               (toggle_loop (\<not> srv_hidden found)
                  (filter (\<lambda>b. bcn_server b = serverId) (beacon_rows em)) em)) ctx))"
  using assms findOne_key[OF assms(2)]
  by (simp add: toggleServerHidden_def connectToProjectEmOrFail_def findOneOrFail_def
      beacons_init_def Let_def)

lemma filter_map_upd:
  assumes "\<And>x. P (f x) = P x" and "\<And>x. x \<in> set xs \<Longrightarrow> P x \<Longrightarrow> Q x"
  shows "filter P (map (\<lambda>x. if Q x then f x else x) xs) = map f (filter P xs)"
  using assms(2) by (induction xs) (auto simp: assms(1))

lemma toggle_loop_own_beacons:
  "filter (\<lambda>b. bcn_server b = sid)
      (beacon_rows (toggle_loop h (filter (\<lambda>b. bcn_server b = sid) (beacon_rows em)) em)) =
   map (\<lambda>b. b\<lparr>bcn_hidden := h\<rparr>) (filter (\<lambda>b. bcn_server b = sid) (beacon_rows em))"
  unfolding toggle_loop_beacons
  by (rule filter_map_upd) auto

lemma toggle_loop_own_hosts:
  "filter (\<lambda>x. Some (host_id x) \<in> bcn_host ` set bs) (host_rows (toggle_loop h bs em)) =
   map (\<lambda>x. x\<lparr>host_hidden := h\<rparr>) (filter (\<lambda>x. Some (host_id x) \<in> bcn_host ` set bs) (host_rows em))"
  unfolding toggle_loop_hosts
  by (rule filter_map_upd) auto

text \<open>One call, read on the rows of the server.\<close>

lemma toggle_step:
  assumes "projects ctx campaignId = Some em"
    and "findOne srv_id (server_rows em) serverId = Some found"
  shows "\<exists>ctx' em'.
     toggleServerHidden ctx campaignId serverId =
       Inr (found\<lparr>srv_hidden := \<not> srv_hidden found\<rparr>, ctx') \<and>
     projects ctx' campaignId = Some em' \<and>
     findOne srv_id (server_rows em') serverId = Some (found\<lparr>srv_hidden := \<not> srv_hidden found\<rparr>) \<and>
     filter (\<lambda>b. bcn_server b = serverId) (beacon_rows em') =
       map (\<lambda>b. b\<lparr>bcn_hidden := \<not> srv_hidden found\<rparr>)
         (filter (\<lambda>b. bcn_server b = serverId) (beacon_rows em)) \<and>
     filter (\<lambda>x. Some (host_id x) \<in> bcn_host ` set (filter (\<lambda>b. bcn_server b = serverId) (beacon_rows em)))
         (host_rows em') =
       map (\<lambda>x. x\<lparr>host_hidden := \<not> srv_hidden found\<rparr>)
         (filter (\<lambda>x. Some (host_id x) \<in> bcn_host ` set (filter (\<lambda>b. bcn_server b = serverId) (beacon_rows em)))
            (host_rows em))"
proof -
  let ?s = "found\<lparr>srv_hidden := \<not> srv_hidden found\<rparr>"
  let ?bs = "filter (\<lambda>b. bcn_server b = serverId) (beacon_rows em)"
  let ?em1 = "toggle_loop (\<not> srv_hidden found) ?bs em"
  let ?em' = "persistAndFlush ?s ?em1"
  let ?ctx' = "forkProject campaignId (flushed campaignId ?em' ctx)"
  have key: "srv_id found = serverId" using findOne_key[OF assms(2)] by simp
  have res: "toggleServerHidden ctx campaignId serverId = Inr (?s, ?ctx')"
    by (rule toggleServerHidden_result[OF assms])
  have proj: "projects ?ctx' campaignId = Some ?em'"
    by (simp add: forkProject_def flushed_def)
  have srv: "findOne srv_id (server_rows ?em') serverId = Some ?s"
    using findOne_nativeUpdate_const[OF assms(2), of ?s] key
    by (simp add: persistAndFlush_def toggle_loop_servers)
  have bcn_rows: "beacon_rows ?em' = beacon_rows ?em1"
    and hst_rows: "host_rows ?em' = host_rows ?em1"
    by (simp_all add: persistAndFlush_def)
  show ?thesis
    using res proj srv
    by (intro exI[of _ ?ctx'] exI[of _ ?em'])
       (simp only: bcn_rows hst_rows toggle_loop_own_beacons toggle_loop_own_hosts simp_thms)
qed

lemma servers_result:
  assumes "servers ctx campaignId username hidden = Inr (result, ctx')"
  shows "\<exists>projectEm. projects ctx campaignId = Some projectEm \<and>
     result = map (\<lambda>server. (server, beacons_init server
                (if \<not> hidden then (\<lambda>b. bcn_hidden b = hidden) else (\<lambda>_. True)) projectEm))
              (find_servers hidden projectEm)"
  using assms
  by (auto simp: servers_def connectToProjectEmOrFail_def getMainEmOrFail_def Let_def
      split: option.splits sum.splits prod.splits)

lemma when_truthy_None [simp]: "when_truthy None f x = x"
  by (simp add: when_truthy_def)

lemma serverUpdate_result:
  assumes "projects ctx campaignId = Some em"
    and "findOne srv_id (server_rows em) serverId = Some found"
  shows "serverUpdate ctx campaignId serverId input =
     (let server' =
        when_truthy (in_displayName input) (\<lambda>d s. s\<lparr>srv_displayName := Some d\<rparr>)
          (when_truthy (in_name input) (\<lambda>n s. s\<lparr>srv_name := n\<rparr>)
            (when_truthy (in_parsingPath input) (\<lambda>p s. s\<lparr>srv_parsingPath := p\<rparr>) found))
      in Inr (server', forkProject campaignId (flushed campaignId (persistAndFlush server' em) ctx)))"
  using assms
  by (simp add: serverUpdate_def connectToProjectEmOrFail_def findOneOrFail_def Let_def)

section \<open>Facts about strings, paths and the endpoint\<close>

lemmas ex_request_defs = ex_parserInfo_def ex_invokeParser_def ex_failingParser_def
  ex_file1_def ex_file2_def ex_request_def ex_request_dotdot_def ex_request_other_field_def
  ex_request_unknown_def ex_request_no_files_def ex_request_toString_def
  ex_request_constructor_def

lemmas eval_defs = parserFileValidation_def get_property_def object_prototype_members_def
  withTempDir_def stage_and_validate_def path_join_def path_normalize_def replace_colons_def
  escape_whitespace_def is_space_def js_def unit_of_def Let_def

lemma js_slash [simp]: "js ''/'' = [unit_of CHR ''/'']"
  by (simp add: js_def)

lemma js_dots [simp]: "js ''.'' \<noteq> []" "js ''..'' \<noteq> []"
  by (simp_all add: js_def)

lemma colon_not_slash [simp]: "unit_of CHR '':'' \<noteq> unit_of CHR ''/''"
  by (simp add: unit_of_def)

lemma move_files_effects:
  "move_files dir files = (effs, ok) \<Longrightarrow> e \<in> set effs \<Longrightarrow> \<exists>n p. e = MoveFile n p"
  by (induction dir files arbitrary: effs ok rule: move_files.induct)
     (auto split: prod.splits)

lemma stage_and_validate_effects:
  assumes "e \<in> set (snd (stage_and_validate invokeParser parserName files dir))"
  shows "\<forall>d. e \<noteq> MkTempDir d \<and> e \<noteq> RmTempDir d"
proof -
  obtain effs ok where m: "move_files dir files = (effs, ok)" by (cases "move_files dir files")
  have "e \<in> set effs \<or> (\<exists>a. e = InvokeParser parserName a)"
    using assms m
    by (auto simp: stage_and_validate_def Let_def split: list.splits option.splits if_splits)
  then show ?thesis using move_files_effects[OF m] by auto
qed

lemma parserFileValidation_staged:
  assumes "get_property parserInfo (req_parserName req) = Some parser" and "req_files req = Some uploaded"
  shows "snd (parserFileValidation parserInfo invokeParser dir req) =
     [MkTempDir dir] @
     snd (stage_and_validate invokeParser (req_parserName req)
            (case uploaded (js ''file'') of
               Some (FileArray fs) \<Rightarrow> map Some fs
             | Some (OneFile f) \<Rightarrow> [Some f]
             | None \<Rightarrow> [None]) dir) @
     [RmTempDir dir]"
  using assms
  by (simp add: parserFileValidation_def withTempDir_def Let_def split: prod.splits sum.splits)

lemma split_on_nonempty: "split_on c s \<noteq> []"
  by (induction s) (auto split: list.splits)

lemma split_on_append: "split_on c (xs @ c # ys) = split_on c xs @ split_on c ys"
  using split_on_nonempty[of c]
  by (induction xs) (auto split: list.splits)

lemma split_on_no_sep: "c \<notin> set s \<Longrightarrow> split_on c s = [s]"
  by (induction s) auto

lemma hd_split_on: "hd (split_on c s) = takeWhile (\<lambda>x. x \<noteq> c) s"
  using split_on_nonempty[of c]
  by (induction s) (auto split: list.splits)

lemma split_on_join_segments:
  "ds \<noteq> [] \<Longrightarrow> \<forall>s \<in> set ds. unit_of CHR ''/'' \<notin> set s \<Longrightarrow>
   split_on (unit_of CHR ''/'') (join_segments ds) = ds"
proof (induction ds rule: join_segments.induct)
  case 1
  then show ?case by simp
next
  case (2 seg)
  then show ?case by (simp add: split_on_no_sep)
next
  case (3 seg v va)
  then show ?case
    using split_on_append[of "unit_of CHR ''/''" seg "join_segments (v # va)"]
    by (simp add: split_on_no_sep)
qed

lemma join_segments_Cons:
  "join_segments (seg # segs) = seg @ concat (map (\<lambda>s. unit_of CHR ''/'' # s) segs)"
  by (induction segs arbitrary: seg) auto

lemma join_segments_append:
  "ds \<noteq> [] \<Longrightarrow> join_segments (ds @ xs) = join_segments ds @ concat (map (\<lambda>s. unit_of CHR ''/'' # s) xs)"
  by (cases ds) (simp_all add: join_segments_Cons)

lemma normalize_segments_no_dotdot:
  "js ''..'' \<notin> set segs \<Longrightarrow>
   normalize_segments allowAboveRoot res segs = res @ filter (\<lambda>s. s \<noteq> [] \<and> s \<noteq> js ''.'') segs"
  by (induction segs arbitrary: res) auto

lemma join_segments_nonempty:
  "ds \<noteq> [] \<Longrightarrow> \<forall>s \<in> set ds. s \<noteq> [] \<Longrightarrow> join_segments ds \<noteq> []"
  by (induction ds rule: join_segments.induct) auto

lemma last_join_segments:
  "ds \<noteq> [] \<Longrightarrow> \<forall>s \<in> set ds. s \<noteq> [] \<Longrightarrow> last (join_segments ds) = last (last ds)"
  by (induction ds rule: join_segments.induct) (auto simp: join_segments_nonempty)

text \<open>Where \<open>path.join\<close> puts a name without \<open>..\<close> under a clean absolute directory.\<close>

lemma path_join_inside:
  assumes dir: "dir = unit_of CHR ''/'' # join_segments ds" "ds \<noteq> []"
    and clean: "\<forall>s \<in> set ds. s \<noteq> [] \<and> s \<noteq> js ''.'' \<and> s \<noteq> js ''..'' \<and> unit_of CHR ''/'' \<notin> set s"
    and name: "js ''..'' \<notin> set (split_on (unit_of CHR ''/'') name)"
  shows "path_join dir name =
     dir @ concat (map (\<lambda>s. unit_of CHR ''/'' # s) (filter (\<lambda>s. s \<noteq> [] \<and> s \<noteq> js ''.'') (split_on (unit_of CHR ''/'') name))) @
     (if name \<noteq> [] \<and> last name = unit_of CHR ''/'' then js ''/'' else [])"
proof -
  let ?keep = "\<lambda>s. s \<noteq> [] \<and> s \<noteq> js ''.''"
  have ne: "join_segments ds \<noteq> []"
    using dir(2) clean by (intro join_segments_nonempty) auto
  have sp_dir: "split_on (unit_of CHR ''/'') dir = [] # ds"
    using dir clean by (simp add: split_on_join_segments)
  have keep_ds: "filter ?keep ds = ds" using clean by (induction ds) auto
  have nodd_ds: "js ''..'' \<notin> set ds" using clean by auto
  have last_dir: "last dir \<noteq> unit_of CHR ''/''"
  proof -
    have "last dir = last (last ds)" using dir ne clean by (simp add: last_join_segments)
    moreover have "last ds \<in> set ds" using dir(2) by simp
    then have "last ds \<noteq> [] \<and> unit_of CHR ''/'' \<notin> set (last ds)" using clean by blast
    then have "last (last ds) \<noteq> unit_of CHR ''/''" by (metis last_in_set)
    ultimately show ?thesis by simp
  qed
  show ?thesis
  proof (cases "name = []")
    case True
    have "normalize_segments False [] ([] # ds) = ds"
      using normalize_segments_no_dotdot[of "[] # ds" False "[]"] nodd_ds keep_ds by simp
    then show ?thesis
      using True dir ne last_dir sp_dir
      by (simp add: path_join_def path_normalize_def Let_def)
  next
    case False
    let ?p = "dir @ unit_of CHR ''/'' # name"
    have sp: "split_on (unit_of CHR ''/'') ?p = [] # ds @ split_on (unit_of CHR ''/'') name"
      using split_on_append[of "unit_of CHR ''/''" dir name] sp_dir by simp
    have norm: "normalize_segments False [] (split_on (unit_of CHR ''/'') ?p) =
        ds @ filter ?keep (split_on (unit_of CHR ''/'') name)"
      unfolding sp
      using normalize_segments_no_dotdot[of "[] # ds @ split_on (unit_of CHR ''/'') name" False "[]"]
        nodd_ds keep_ds name by simp
    have q: "join_segments (ds @ filter ?keep (split_on (unit_of CHR ''/'') name)) =
        join_segments ds @ concat (map (\<lambda>s. unit_of CHR ''/'' # s) (filter ?keep (split_on (unit_of CHR ''/'') name)))"
      by (rule join_segments_append[OF dir(2)])
    have hdp: "hd ?p = unit_of CHR ''/''" "?p \<noteq> []" "last ?p = last name"
      using dir False by simp_all
    have "path_join dir name = path_normalize ?p"
      using False dir by (simp add: path_join_def)
    also have "\<dots> = js ''/'' @ join_segments ds @
         concat (map (\<lambda>s. unit_of CHR ''/'' # s) (filter ?keep (split_on (unit_of CHR ''/'') name))) @
         (if last name = unit_of CHR ''/'' then js ''/'' else [])"
      using hdp ne by (simp add: path_normalize_def Let_def norm q)
    finally show ?thesis using False dir by simp
  qed
qed


lemma escape_from_no_space: "\<forall>c \<in> set s. \<not> is_space c \<Longrightarrow> escape_from b s = s"
  by (induction s arbitrary: b) auto

lemma escape_from_in_run:
  "\<forall>c \<in> set w. is_space c \<Longrightarrow> escape_from True (w @ v) = w @ escape_from True v"
  by (induction w) auto

lemma escape_from_after_run:
  "v = [] \<or> \<not> is_space (hd v) \<Longrightarrow> escape_from True v = escape_from False v"
  by (cases v) auto

lemma escape_from_run:
  assumes "w \<noteq> []" "\<forall>c \<in> set w. is_space c" "v = [] \<or> \<not> is_space (hd v)"
  shows "escape_from False (w @ v) = unit_of (CHR 0x5C) # w @ escape_from False v"
proof -
  obtain c cs where w: "w = c # cs" using assms(1) by (cases w) auto
  then have "escape_from False (w @ v) = unit_of (CHR 0x5C) # c # escape_from True (cs @ v)"
    using assms(2) by simp
  also have "escape_from True (cs @ v) = cs @ escape_from True v"
    using assms(2) w by (intro escape_from_in_run) simp
  also have "escape_from True v = escape_from False v"
    by (rule escape_from_after_run[OF assms(3)])
  finally show ?thesis using w by simp
qed

lemma escape_from_append:
  "u \<noteq> [] \<Longrightarrow> \<not> is_space (last u) \<Longrightarrow>
   escape_from b (u @ r) = escape_from b u @ escape_from False r"
  by (induction u arbitrary: b) (auto split: if_splits)

lemma escape_whitespace_run:
  assumes "u = [] \<or> \<not> is_space (last u)" "w \<noteq> []" "\<forall>c \<in> set w. is_space c"
    "v = [] \<or> \<not> is_space (hd v)"
  shows "escape_whitespace (u @ w @ v) = escape_whitespace u @ unit_of (CHR 0x5C) # w @ escape_whitespace v"
proof (cases "u = []")
  case True
  then show ?thesis
    using escape_from_run[OF assms(2,3,4)] by (simp add: escape_whitespace_def)
next
  case False
  then show ?thesis
    using assms(1) escape_from_append[of u False "w @ v"] escape_from_run[OF assms(2,3,4)]
    by (simp add: escape_whitespace_def)
qed

lemma replace_colons_props:
  "length (replace_colons n) = length n \<and> unit_of CHR '':'' \<notin> set (replace_colons n) \<and>
   (\<forall>i < length n. replace_colons n ! i = (if n ! i = unit_of CHR '':'' then unit_of CHR ''/'' else n ! i))"
  by (auto simp: replace_colons_def)

lemma move_files_all:
  "move_files dir (map Some files) =
     (map (\<lambda>file. MoveFile (file_name file) (path_join dir (replace_colons (file_name file)))) files,
      True)"
  by (induction files) auto

lemma stage_and_validate_files:
  "stage_and_validate invokeParser parserName (map Some (first # rest)) dir =
     (let args = [js ''validate-files'', js ''--folder'',
                  escape_whitespace
                    (path_join dir (takeWhile (\<lambda>c. c \<noteq> unit_of CHR ''/'') (replace_colons (file_name first))))]
      in (invokeParser parserName args,
          map (\<lambda>file. MoveFile (file_name file) (path_join dir (replace_colons (file_name file))))
            (first # rest) @ [InvokeParser parserName args]))"
  using move_files_all[of dir "first # rest"]
  by (simp add: stage_and_validate_def Let_def hd_split_on del: move_files.simps)

lemma parserFileValidation_files:
  assumes "get_property parserInfo (req_parserName req) = Some parser"
    and "req_files req = Some uploaded"
    and "uploaded (js ''file'') = Some (OneFile first) \<and> rest = [] \<or>
         uploaded (js ''file'') = Some (FileArray (first # rest))"
  shows "parserFileValidation parserInfo invokeParser dir req =
     (let args = [js ''validate-files'', js ''--folder'',
                  escape_whitespace
                    (path_join dir (takeWhile (\<lambda>c. c \<noteq> unit_of CHR ''/'') (replace_colons (file_name first))))]
      in ((case invokeParser (req_parserName req) args of
             Inl e \<Rightarrow> Unhandled e
           | Inr v \<Rightarrow> Response 200 (Payload v)),
          [MkTempDir dir] @
          map (\<lambda>file. MoveFile (file_name file) (path_join dir (replace_colons (file_name file))))
            (first # rest) @
          [InvokeParser (req_parserName req) args, RmTempDir dir]))"
proof -
  have files: "(case uploaded (js ''file'') of
               Some (FileArray fs) \<Rightarrow> map Some fs
             | Some (OneFile f) \<Rightarrow> [Some f]
             | None \<Rightarrow> [None]) = map Some (first # rest)"
    using assms(3) by auto
  show ?thesis
    using assms(1,2)
    by (simp add: parserFileValidation_def withTempDir_def files stage_and_validate_files Let_def
        del: list.map split: sum.splits)
qed

text \<open>The two guards of the handler: both answer without any effect.\<close>

lemma parserFileValidation_guards:
  "(get_property parserInfo (req_parserName req) = None \<longrightarrow>
      parserFileValidation parserInfo invokeParser dir req =
        (Response 400 (Msg (js ''Parser '' @ req_parserName req @ js '' is not available'')), [])) \<and>
   (get_property parserInfo (req_parserName req) \<noteq> None \<and> req_files req = None \<longrightarrow>
      parserFileValidation parserInfo invokeParser dir req =
        (Response 500 (Msg (js ''No files provided'')), []))"
  by (auto simp: parserFileValidation_def Let_def)

lemma take_prefix_iff: "length p = n \<Longrightarrow> (take n s = p) = (\<exists>t. s = p @ t)"
  by (metis append_eq_conv_conj append_take_drop_id)

section \<open>Claims about toggleServerHidden\<close>

text \<open>
  C1. A call of \<open>toggleServerHidden\<close> whose campaign and server exist succeeds and
  signals the campaign to the cache manager. The server it returns is the server found,
  with the hidden flag negated, and it is the stored one. The rows after the call are the
  rows before it, changed as follows: the rows of the server are the returned server; every
  beacon row with the id of a beacon of the server, and every host row with the id of the
  host of such a beacon, has the server's new hidden flag; every other row is as it was.
  So the beacons of the server after the call are its beacons before the call, each with
  the new flag, likewise the hosts they point at, and every beacon of the server and every
  host such a beacon points at carries the server's new hidden flag.
\<close>

theorem toggleServerHidden_propagates:
  assumes "projects ctx campaignId = Some em"
    and "findOne srv_id (server_rows em) serverId = Some found"
  shows "\<exists>server' ctx' em'.
     toggleServerHidden ctx campaignId serverId = Inr (server', ctx') \<and>
     projects ctx' campaignId = Some em' \<and>
     cm ctx' = cm ctx @ [ForkProject campaignId] \<and>
     findOne srv_id (server_rows em') serverId = Some server' \<and>
     server' = found\<lparr>srv_hidden := \<not> srv_hidden found\<rparr> \<and>
     srv_hidden server' = (\<not> srv_hidden found) \<and>
     server_rows em' = map (\<lambda>r. if srv_id r = serverId then server' else r) (server_rows em) \<and>
     beacon_rows em' =
       map (\<lambda>b. if bcn_id b \<in> bcn_id ` set (filter (\<lambda>b. bcn_server b = serverId) (beacon_rows em))
                 then b\<lparr>bcn_hidden := srv_hidden server'\<rparr> else b)
         (beacon_rows em) \<and>
     host_rows em' =
       map (\<lambda>x. if Some (host_id x) \<in> bcn_host ` set (filter (\<lambda>b. bcn_server b = serverId) (beacon_rows em))
                 then x\<lparr>host_hidden := srv_hidden server'\<rparr> else x)
         (host_rows em) \<and>
     filter (\<lambda>b. bcn_server b = serverId) (beacon_rows em') =
       map (\<lambda>b. b\<lparr>bcn_hidden := srv_hidden server'\<rparr>)
         (filter (\<lambda>b. bcn_server b = serverId) (beacon_rows em)) \<and>
     filter (\<lambda>x. Some (host_id x) \<in> bcn_host ` set (filter (\<lambda>b. bcn_server b = serverId) (beacon_rows em)))
         (host_rows em') =
       map (\<lambda>x. x\<lparr>host_hidden := srv_hidden server'\<rparr>)
         (filter (\<lambda>x. Some (host_id x) \<in> bcn_host ` set (filter (\<lambda>b. bcn_server b = serverId) (beacon_rows em)))
            (host_rows em)) \<and>
     (\<forall>b \<in> set (beacon_rows em'). bcn_server b = serverId \<longrightarrow>
        bcn_hidden b = srv_hidden server' \<and>
        (\<forall>h \<in> set (host_rows em'). Some (host_id h) = bcn_host b \<longrightarrow>
           host_hidden h = srv_hidden server'))"
proof -
  let ?s = "found\<lparr>srv_hidden := \<not> srv_hidden found\<rparr>"
  let ?bs = "filter (\<lambda>b. bcn_server b = serverId) (beacon_rows em)"
  let ?em1 = "toggle_loop (\<not> srv_hidden found) ?bs em"
  let ?em' = "persistAndFlush ?s ?em1"
  let ?ctx' = "forkProject campaignId (flushed campaignId ?em' ctx)"
  have key: "srv_id found = serverId" using findOne_key[OF assms(2)] by simp
  have res: "toggleServerHidden ctx campaignId serverId = Inr (?s, ?ctx')"
    by (rule toggleServerHidden_result[OF assms])
  have proj: "projects ?ctx' campaignId = Some ?em'"
    by (simp add: forkProject_def flushed_def)
  have sig: "cm ?ctx' = cm ctx @ [ForkProject campaignId]"
    by (simp add: forkProject_def flushed_def)
  have srv: "findOne srv_id (server_rows ?em') serverId = Some ?s"
    using findOne_nativeUpdate_const[OF assms(2), of ?s] key
    by (simp add: persistAndFlush_def toggle_loop_servers)
  have same: "?s = found\<lparr>srv_hidden := \<not> srv_hidden found\<rparr>" by simp
  have flag: "srv_hidden ?s = (\<not> srv_hidden found)" by simp
  have srv_rows: "server_rows ?em' = map (\<lambda>r. if srv_id r = serverId then ?s else r) (server_rows em)"
    using key by (simp add: persistAndFlush_def nativeUpdate_def toggle_loop_servers)
  have bcn_rows: "beacon_rows ?em' =
       map (\<lambda>b. if bcn_id b \<in> bcn_id ` set ?bs then b\<lparr>bcn_hidden := srv_hidden ?s\<rparr> else b)
         (beacon_rows em)"
    by (simp add: persistAndFlush_def toggle_loop_beacons)
  have hst_rows: "host_rows ?em' =
       map (\<lambda>x. if Some (host_id x) \<in> bcn_host ` set ?bs then x\<lparr>host_hidden := srv_hidden ?s\<rparr> else x)
         (host_rows em)"
    by (simp add: persistAndFlush_def toggle_loop_hosts)
  have own_bcn: "filter (\<lambda>b. bcn_server b = serverId) (beacon_rows ?em') =
       map (\<lambda>b. b\<lparr>bcn_hidden := srv_hidden ?s\<rparr>) ?bs"
    using toggle_loop_own_beacons[of serverId "\<not> srv_hidden found" em]
    by (simp add: persistAndFlush_def)
  have own_hst: "filter (\<lambda>x. Some (host_id x) \<in> bcn_host ` set ?bs) (host_rows ?em') =
       map (\<lambda>x. x\<lparr>host_hidden := srv_hidden ?s\<rparr>)
         (filter (\<lambda>x. Some (host_id x) \<in> bcn_host ` set ?bs) (host_rows em))"
    using toggle_loop_own_hosts[of ?bs "\<not> srv_hidden found" em]
    by (simp add: persistAndFlush_def)
  have bcn: "bcn_hidden b = srv_hidden ?s"
    if "b \<in> set (beacon_rows ?em')" "bcn_server b = serverId" for b
    using that unfolding bcn_rows by (auto split: if_splits)
  have hst: "host_hidden h = srv_hidden ?s"
    if "b \<in> set (beacon_rows ?em')" "bcn_server b = serverId"
       "h \<in> set (host_rows ?em')" "Some (host_id h) = bcn_host b" for b h
  proof -
    from that(1,2) obtain b0 where b0: "b0 \<in> set (beacon_rows em)" "bcn_server b0 = serverId"
      "bcn_host b0 = bcn_host b"
      unfolding bcn_rows by (auto split: if_splits)
    then have "b0 \<in> set ?bs" by simp
    then have "bcn_host b0 \<in> bcn_host ` set ?bs" by (rule imageI)
    then have "bcn_host b \<in> bcn_host ` set ?bs" using b0(3) by simp
    with that(3,4) show ?thesis
      unfolding hst_rows by (auto split: if_splits)
  qed
  have every: "\<forall>b \<in> set (beacon_rows ?em'). bcn_server b = serverId \<longrightarrow>
        bcn_hidden b = srv_hidden ?s \<and>
        (\<forall>h \<in> set (host_rows ?em'). Some (host_id h) = bcn_host b \<longrightarrow>
           host_hidden h = srv_hidden ?s)"
    using bcn hst by blast
  show ?thesis
    apply (rule exI[of _ ?s], rule exI[of _ ?ctx'], rule exI[of _ ?em'])
    apply (intro conjI)
               apply (fact res proj sig srv same flag srv_rows bcn_rows hst_rows own_bcn own_hst every)+
    done
qed

theorem toggleServerHidden_propagates_witness:
  "projects ex_ctx ''c1'' = Some ex_em \<and>
   findOne srv_id (server_rows ex_em) ''s1'' = Some ex_server1 \<and>
   (\<exists>server' ctx' em'.
     toggleServerHidden ex_ctx ''c1'' ''s1'' = Inr (server', ctx') \<and>
     projects ctx' ''c1'' = Some em' \<and>
     cm ctx' = cm ex_ctx @ [ForkProject ''c1''] \<and>
     findOne srv_id (server_rows em') ''s1'' = Some server' \<and>
     server' = ex_server1\<lparr>srv_hidden := \<not> srv_hidden ex_server1\<rparr> \<and>
     srv_hidden server' = (\<not> srv_hidden ex_server1) \<and>
     server_rows em' = map (\<lambda>r. if srv_id r = ''s1'' then server' else r) (server_rows ex_em) \<and>
     beacon_rows em' =
       map (\<lambda>b. if bcn_id b \<in> bcn_id ` set (filter (\<lambda>b. bcn_server b = ''s1'') (beacon_rows ex_em))
                 then b\<lparr>bcn_hidden := srv_hidden server'\<rparr> else b)
         (beacon_rows ex_em) \<and>
     host_rows em' =
       map (\<lambda>x. if Some (host_id x) \<in> bcn_host ` set (filter (\<lambda>b. bcn_server b = ''s1'') (beacon_rows ex_em))
                 then x\<lparr>host_hidden := srv_hidden server'\<rparr> else x)
         (host_rows ex_em) \<and>
     filter (\<lambda>b. bcn_server b = ''s1'') (beacon_rows em') =
       map (\<lambda>b. b\<lparr>bcn_hidden := srv_hidden server'\<rparr>)
         (filter (\<lambda>b. bcn_server b = ''s1'') (beacon_rows ex_em)) \<and>
     filter (\<lambda>x. Some (host_id x) \<in> bcn_host ` set (filter (\<lambda>b. bcn_server b = ''s1'') (beacon_rows ex_em)))
         (host_rows em') =
       map (\<lambda>x. x\<lparr>host_hidden := srv_hidden server'\<rparr>)
         (filter (\<lambda>x. Some (host_id x) \<in> bcn_host ` set (filter (\<lambda>b. bcn_server b = ''s1'') (beacon_rows ex_em)))
            (host_rows ex_em)) \<and>
     (\<forall>b \<in> set (beacon_rows em'). bcn_server b = ''s1'' \<longrightarrow>
        bcn_hidden b = srv_hidden server' \<and>
        (\<forall>h \<in> set (host_rows em'). Some (host_id h) = bcn_host b \<longrightarrow>
           host_hidden h = srv_hidden server'))) \<and>
   toggleServerHidden ex_ctx ''c1'' ''s1'' = Inr (ex_server1\<lparr>srv_hidden := True\<rparr>, ex_ctx1) \<and>
   map bcn_hidden (beacon_rows ex_em) = [True, False, True] \<and>
   map bcn_hidden (beacon_rows ex_em1) = [True, True, True] \<and>
   map host_hidden (host_rows ex_em) = [False, False] \<and>
   map host_hidden (host_rows ex_em1) = [True, False]"
proof -
  have p: "projects ex_ctx ''c1'' = Some ex_em"
    by (simp add: ex_ctx_def)
  have f: "findOne srv_id (server_rows ex_em) ''s1'' = Some ex_server1"
    by (simp add: findOne_def ex_em_def ex_server1_def)
  have run: "toggleServerHidden ex_ctx ''c1'' ''s1'' = Inr (ex_server1\<lparr>srv_hidden := True\<rparr>, ex_ctx1)"
    by (simp add: ex_defs toggleServerHidden_def connectToProjectEmOrFail_def findOneOrFail_def
      findOne_def beacons_init_def persistAndFlush_def nativeUpdate_def forkProject_def
      flushed_def Let_def)
  have rows: "map bcn_hidden (beacon_rows ex_em) = [True, False, True]"
    "map bcn_hidden (beacon_rows ex_em1) = [True, True, True]"
    "map host_hidden (host_rows ex_em) = [False, False]"
    "map host_hidden (host_rows ex_em1) = [True, False]"
    by (simp_all add: ex_defs)
  show ?thesis
    using p f run rows toggleServerHidden_propagates[OF p f] by (simp only: simp_thms)
qed

text \<open>
  C2, as stated, fails: in the small campaign the beacon \<open>b1\<close> of server \<open>s1\<close> is
  hidden while the server is visible; two calls return the server to visible and leave
  \<open>b1\<close> visible, so its flag is not restored.
\<close>

theorem toggleServerHidden_twice_counterexample:
  "toggleServerHidden ex_ctx ''c1'' ''s1'' = Inr (ex_server1\<lparr>srv_hidden := True\<rparr>, ex_ctx1) \<and>
   toggleServerHidden ex_ctx1 ''c1'' ''s1'' = Inr (ex_server1, ex_ctx2) \<and>
   projects ex_ctx ''c1'' = Some ex_em \<and>
   projects ex_ctx2 ''c1'' = Some ex_em2 \<and>
   bcn_server ex_beacon1 = ''s1'' \<and>
   map bcn_id (beacon_rows ex_em) = [''b1'', ''b2'', ''b3''] \<and>
   map bcn_hidden (beacon_rows ex_em) = [True, False, True] \<and>
   map bcn_id (beacon_rows ex_em2) = [''b1'', ''b2'', ''b3''] \<and>
   map bcn_hidden (beacon_rows ex_em2) = [False, False, True]"
  by (simp add: ex_defs toggleServerHidden_def connectToProjectEmOrFail_def findOneOrFail_def
      findOne_def beacons_init_def persistAndFlush_def nativeUpdate_def forkProject_def
      flushed_def Let_def)

text \<open>
  C2, amended. Two calls in succession succeed, return and store the server as it was
  before the first call, and leave every beacon of the server, and every host such a
  beacon points at, unchanged but for the hidden flag, which is the server's original
  one. So the flag of a beacon or host is restored exactly when it agreed with the
  server's flag before the first call.
\<close>

theorem toggleServerHidden_twice:
  assumes "projects ctx campaignId = Some em"
    and "findOne srv_id (server_rows em) serverId = Some found"
  shows "\<exists>server1 ctx1 server2 ctx2 em2.
     toggleServerHidden ctx campaignId serverId = Inr (server1, ctx1) \<and>
     toggleServerHidden ctx1 campaignId serverId = Inr (server2, ctx2) \<and>
     projects ctx2 campaignId = Some em2 \<and>
     server2 = found \<and>
     findOne srv_id (server_rows em2) serverId = Some found \<and>
     filter (\<lambda>b. bcn_server b = serverId) (beacon_rows em2) =
       map (\<lambda>b. b\<lparr>bcn_hidden := srv_hidden found\<rparr>)
         (filter (\<lambda>b. bcn_server b = serverId) (beacon_rows em)) \<and>
     filter (\<lambda>x. Some (host_id x) \<in> bcn_host ` set (filter (\<lambda>b. bcn_server b = serverId) (beacon_rows em)))
         (host_rows em2) =
       map (\<lambda>x. x\<lparr>host_hidden := srv_hidden found\<rparr>)
         (filter (\<lambda>x. Some (host_id x) \<in> bcn_host ` set (filter (\<lambda>b. bcn_server b = serverId) (beacon_rows em)))
            (host_rows em))"
proof -
  let ?P = "\<lambda>b. bcn_server b = serverId"
  let ?s1 = "found\<lparr>srv_hidden := \<not> srv_hidden found\<rparr>"
  from toggle_step[OF assms] obtain ctx1 em1 where
    r1: "toggleServerHidden ctx campaignId serverId = Inr (?s1, ctx1)"
    and p1: "projects ctx1 campaignId = Some em1"
    and f1: "findOne srv_id (server_rows em1) serverId = Some ?s1"
    and b1: "filter ?P (beacon_rows em1) = map (\<lambda>b. b\<lparr>bcn_hidden := \<not> srv_hidden found\<rparr>) (filter ?P (beacon_rows em))"
    and h1: "filter (\<lambda>x. Some (host_id x) \<in> bcn_host ` set (filter ?P (beacon_rows em))) (host_rows em1) =
       map (\<lambda>x. x\<lparr>host_hidden := \<not> srv_hidden found\<rparr>)
         (filter (\<lambda>x. Some (host_id x) \<in> bcn_host ` set (filter ?P (beacon_rows em))) (host_rows em))"
    by blast
  have hostset: "bcn_host ` set (filter ?P (beacon_rows em1)) = bcn_host ` set (filter ?P (beacon_rows em))"
    unfolding b1 by (simp add: image_image)
  from toggle_step[OF p1 f1] obtain ctx2 em2 where
    r2: "toggleServerHidden ctx1 campaignId serverId = Inr (?s1\<lparr>srv_hidden := \<not> srv_hidden ?s1\<rparr>, ctx2)"
    and p2: "projects ctx2 campaignId = Some em2"
    and f2: "findOne srv_id (server_rows em2) serverId = Some (?s1\<lparr>srv_hidden := \<not> srv_hidden ?s1\<rparr>)"
    and b2: "filter ?P (beacon_rows em2) = map (\<lambda>b. b\<lparr>bcn_hidden := \<not> srv_hidden ?s1\<rparr>) (filter ?P (beacon_rows em1))"
    and h2: "filter (\<lambda>x. Some (host_id x) \<in> bcn_host ` set (filter ?P (beacon_rows em1))) (host_rows em2) =
       map (\<lambda>x. x\<lparr>host_hidden := \<not> srv_hidden ?s1\<rparr>)
         (filter (\<lambda>x. Some (host_id x) \<in> bcn_host ` set (filter ?P (beacon_rows em1))) (host_rows em1))"
    by blast
  have restored: "?s1\<lparr>srv_hidden := \<not> srv_hidden ?s1\<rparr> = found" by simp
  have b: "filter ?P (beacon_rows em2) = map (\<lambda>b. b\<lparr>bcn_hidden := srv_hidden found\<rparr>) (filter ?P (beacon_rows em))"
    unfolding b2 b1 by (simp add: comp_def)
  have h: "filter (\<lambda>x. Some (host_id x) \<in> bcn_host ` set (filter ?P (beacon_rows em))) (host_rows em2) =
       map (\<lambda>x. x\<lparr>host_hidden := srv_hidden found\<rparr>)
         (filter (\<lambda>x. Some (host_id x) \<in> bcn_host ` set (filter ?P (beacon_rows em))) (host_rows em))"
    using h2 unfolding hostset h1 by (simp add: comp_def)
  show ?thesis
    using r1 r2 p2 f2 b h unfolding restored by blast
qed

theorem toggleServerHidden_twice_witness:
  "projects ex_ctx ''c1'' = Some ex_em \<and>
   findOne srv_id (server_rows ex_em) ''s1'' = Some ex_server1 \<and>
   (\<exists>server1 ctx1 server2 ctx2 em2.
     toggleServerHidden ex_ctx ''c1'' ''s1'' = Inr (server1, ctx1) \<and>
     toggleServerHidden ctx1 ''c1'' ''s1'' = Inr (server2, ctx2) \<and>
     projects ctx2 ''c1'' = Some em2 \<and>
     server2 = ex_server1 \<and>
     findOne srv_id (server_rows em2) ''s1'' = Some ex_server1 \<and>
     filter (\<lambda>b. bcn_server b = ''s1'') (beacon_rows em2) =
       map (\<lambda>b. b\<lparr>bcn_hidden := srv_hidden ex_server1\<rparr>)
         (filter (\<lambda>b. bcn_server b = ''s1'') (beacon_rows ex_em)) \<and>
     filter (\<lambda>x. Some (host_id x) \<in> bcn_host ` set (filter (\<lambda>b. bcn_server b = ''s1'') (beacon_rows ex_em)))
         (host_rows em2) =
       map (\<lambda>x. x\<lparr>host_hidden := srv_hidden ex_server1\<rparr>)
         (filter (\<lambda>x. Some (host_id x) \<in> bcn_host ` set (filter (\<lambda>b. bcn_server b = ''s1'') (beacon_rows ex_em)))
            (host_rows ex_em)))"
proof -
  have p: "projects ex_ctx ''c1'' = Some ex_em"
    by (simp add: ex_ctx_def)
  have f: "findOne srv_id (server_rows ex_em) ''s1'' = Some ex_server1"
    by (simp add: findOne_def ex_em_def ex_server1_def)
  show ?thesis
    using p f toggleServerHidden_twice[OF p f] by (simp only: simp_thms)
qed

section \<open>Claims about servers\<close>

lemma ex_servers_visible:
  "servers ex_ctx ''c1'' ''alice'' False = Inr ([(ex_server1, [ex_beacon2])], ex_ctx_opened)"
  by (simp add: ex_defs servers_def connectToProjectEmOrFail_def getMainEmOrFail_def
      findOne_def nativeUpdate_def find_servers_def beacons_init_def forkMain_def Let_def)

text \<open>
  C3. Whatever the campaign and the user, the list that \<open>servers\<close> returns for
  \<open>hidden = false\<close> holds no hidden server, and no loaded \<open>beacons\<close> collection in it
  holds a hidden beacon.
\<close>

theorem servers_visible_only:
  assumes "servers ctx campaignId username False = Inr (result, ctx')"
  shows "\<forall>(server, beacons) \<in> set result.
     \<not> srv_hidden server \<and> (\<forall>b \<in> set beacons. \<not> bcn_hidden b)"
proof -
  from servers_result[OF assms] obtain projectEm where
    "result = map (\<lambda>server. (server, beacons_init server (\<lambda>b. bcn_hidden b = False) projectEm))
              (find_servers False projectEm)" by auto
  then show ?thesis
    by (auto simp: find_servers_def beacons_init_def)
qed

theorem servers_visible_only_witness:
  "servers ex_ctx ''c1'' ''alice'' False = Inr ([(ex_server1, [ex_beacon2])], ex_ctx_opened) \<and>
   \<not> srv_hidden ex_server1 \<and> \<not> bcn_hidden ex_beacon2"
  using servers_visible_only[OF ex_servers_visible] ex_servers_visible by simp

text \<open>
  C10. For \<open>hidden = false\<close> the list omits a server of the campaign that is itself
  visible but has no visible beacon: the condition on \<open>beacons\<close> asks for one.
\<close>

theorem servers_omits_server_without_visible_beacon:
  assumes "servers ctx campaignId username False = Inr (result, ctx')"
    and "projects ctx campaignId = Some projectEm"
    and "server \<in> set (server_rows projectEm)"
    and "\<not> srv_hidden server"
    and "\<forall>b \<in> set (beacon_rows projectEm). bcn_server b = srv_id server \<longrightarrow> bcn_hidden b"
  shows "server \<notin> fst ` set result"
proof -
  from servers_result[OF assms(1)] assms(2)
  have "map fst result = find_servers False projectEm" by (simp add: comp_def)
  then have "fst ` set result = set (find_servers False projectEm)"
    by (metis set_map)
  then show ?thesis using assms(5) by (auto simp: find_servers_def)
qed

theorem servers_omits_server_without_visible_beacon_witness:
  "servers ex_ctx ''c1'' ''alice'' False = Inr ([(ex_server1, [ex_beacon2])], ex_ctx_opened) \<and>
   projects ex_ctx ''c1'' = Some ex_em \<and>
   ex_server2 \<in> set (server_rows ex_em) \<and>
   \<not> srv_hidden ex_server2 \<and>
   filter (\<lambda>b. bcn_server b = srv_id ex_server2) (beacon_rows ex_em) = [ex_beacon3] \<and>
   bcn_hidden ex_beacon3 \<and>
   ex_server2 \<notin> fst ` set [(ex_server1, [ex_beacon2])]"
proof -
  have p: "projects ex_ctx ''c1'' = Some ex_em" by (simp add: ex_defs)
  have m: "ex_server2 \<in> set (server_rows ex_em)" by (simp add: ex_defs)
  have v: "\<not> srv_hidden ex_server2" by (simp add: ex_defs)
  have f: "filter (\<lambda>b. bcn_server b = srv_id ex_server2) (beacon_rows ex_em) = [ex_beacon3]"
    by (simp add: ex_defs)
  have h: "bcn_hidden ex_beacon3" by (simp add: ex_defs)
  have a: "\<forall>b \<in> set (beacon_rows ex_em). bcn_server b = srv_id ex_server2 \<longrightarrow> bcn_hidden b"
    by (simp add: ex_defs)
  show ?thesis
    using servers_omits_server_without_visible_beacon[OF ex_servers_visible p m v a]
      ex_servers_visible p m v f h by simp
qed

section \<open>Claims about serverUpdate and updateServerMetadata\<close>

text \<open>
  C4. A call of \<open>serverUpdate\<close> whose campaign and server exist succeeds and stores the
  server it returns. A field for which the input supplies no value keeps its value, as do
  the id, the hidden flag and the metadata; a field for which the input supplies a
  non-empty value takes it. In particular a server with name \<open>A\<close>, display name \<open>B\<close> and
  parsing path \<open>C\<close>, updated with the input \<open>{name: X}\<close>, has name \<open>X\<close>, display name
  \<open>B\<close> and parsing path \<open>C\<close>.
\<close>

theorem serverUpdate_partial:
  assumes "projects ctx campaignId = Some em"
    and "findOne srv_id (server_rows em) serverId = Some found"
  shows "\<exists>server' ctx' em'.
     serverUpdate ctx campaignId serverId input = Inr (server', ctx') \<and>
     projects ctx' campaignId = Some em' \<and>
     findOne srv_id (server_rows em') serverId = Some server' \<and>
     (in_parsingPath input = None \<longrightarrow> srv_parsingPath server' = srv_parsingPath found) \<and>
     (in_name input = None \<longrightarrow> srv_name server' = srv_name found) \<and>
     (in_displayName input = None \<longrightarrow> srv_displayName server' = srv_displayName found) \<and>
     (\<forall>p. in_parsingPath input = Some p \<and> p \<noteq> [] \<longrightarrow> srv_parsingPath server' = p) \<and>
     (\<forall>n. in_name input = Some n \<and> n \<noteq> [] \<longrightarrow> srv_name server' = n) \<and>
     (\<forall>d. in_displayName input = Some d \<and> d \<noteq> [] \<longrightarrow> srv_displayName server' = Some d) \<and>
     srv_id server' = srv_id found \<and> srv_hidden server' = srv_hidden found \<and>
     srv_meta server' = srv_meta found \<and>
     beacon_rows em' = beacon_rows em \<and> host_rows em' = host_rows em \<and>
     (srv_name found = ''A'' \<and> srv_displayName found = Some ''B'' \<and> srv_parsingPath found = ''C'' \<and>
      input = \<lparr>in_parsingPath = None, in_name = Some ''X'', in_displayName = None\<rparr> \<longrightarrow>
      srv_name server' = ''X'' \<and> srv_displayName server' = Some ''B'' \<and> srv_parsingPath server' = ''C'')"
proof -
  define server' where "server' =
        when_truthy (in_displayName input) (\<lambda>d s. s\<lparr>srv_displayName := Some d\<rparr>)
          (when_truthy (in_name input) (\<lambda>n s. s\<lparr>srv_name := n\<rparr>)
            (when_truthy (in_parsingPath input) (\<lambda>p s. s\<lparr>srv_parsingPath := p\<rparr>) found))"
  define em' where "em' = persistAndFlush server' em"
  define ctx' where "ctx' = forkProject campaignId (flushed campaignId em' ctx)"
  have res: "serverUpdate ctx campaignId serverId input = Inr (server', ctx')"
    unfolding serverUpdate_result[OF assms] server'_def em'_def ctx'_def by (simp add: Let_def)
  have proj: "projects ctx' campaignId = Some em'"
    by (simp add: ctx'_def forkProject_def flushed_def)
  have key: "srv_id found = serverId" using findOne_key[OF assms(2)] by simp
  have sid: "srv_id server' = srv_id found"
    by (simp add: server'_def when_truthy_def split: option.splits)
  have stored: "findOne srv_id (server_rows em') serverId = Some server'"
    using findOne_nativeUpdate_const[OF assms(2), of server'] key sid
    by (simp add: em'_def persistAndFlush_def)
  have fields:
     "in_parsingPath input = None \<longrightarrow> srv_parsingPath server' = srv_parsingPath found"
     "in_name input = None \<longrightarrow> srv_name server' = srv_name found"
     "in_displayName input = None \<longrightarrow> srv_displayName server' = srv_displayName found"
     "\<forall>p. in_parsingPath input = Some p \<and> p \<noteq> [] \<longrightarrow> srv_parsingPath server' = p"
     "\<forall>n. in_name input = Some n \<and> n \<noteq> [] \<longrightarrow> srv_name server' = n"
     "\<forall>d. in_displayName input = Some d \<and> d \<noteq> [] \<longrightarrow> srv_displayName server' = Some d"
     "srv_hidden server' = srv_hidden found" "srv_meta server' = srv_meta found"
    by (simp_all add: server'_def when_truthy_def split: option.splits)
  have rows: "beacon_rows em' = beacon_rows em" "host_rows em' = host_rows em"
    by (simp_all add: em'_def persistAndFlush_def)
  have example: "srv_name found = ''A'' \<and> srv_displayName found = Some ''B'' \<and> srv_parsingPath found = ''C'' \<and>
      input = \<lparr>in_parsingPath = None, in_name = Some ''X'', in_displayName = None\<rparr> \<longrightarrow>
      srv_name server' = ''X'' \<and> srv_displayName server' = Some ''B'' \<and> srv_parsingPath server' = ''C''"
    by (auto simp: server'_def when_truthy_def)
  show ?thesis
    apply (rule exI[of _ server'], rule exI[of _ ctx'], rule exI[of _ em'])
    apply (intro conjI)
    apply (fact res proj stored fields sid rows example)+
    done
qed

theorem serverUpdate_partial_witness:
  "projects ex_ctx ''c1'' = Some ex_em \<and>
   findOne srv_id (server_rows ex_em) ''s1'' = Some ex_server1 \<and>
   srv_name ex_server1 = ''A'' \<and> srv_displayName ex_server1 = Some ''B'' \<and>
   srv_parsingPath ex_server1 = ''C'' \<and>
   (\<exists>server' ctx'.
      serverUpdate ex_ctx ''c1'' ''s1''
        \<lparr>in_parsingPath = None, in_name = Some ''X'', in_displayName = None\<rparr> = Inr (server', ctx') \<and>
      srv_name server' = ''X'' \<and> srv_displayName server' = Some ''B'' \<and>
      srv_parsingPath server' = ''C'')"
proof -
  have p: "projects ex_ctx ''c1'' = Some ex_em"
    by (simp add: ex_ctx_def)
  have f: "findOne srv_id (server_rows ex_em) ''s1'' = Some ex_server1"
    by (simp add: findOne_def ex_em_def ex_server1_def)
  have v: "srv_name ex_server1 = ''A''" "srv_displayName ex_server1 = Some ''B''"
    "srv_parsingPath ex_server1 = ''C''"
    by (simp_all add: ex_server1_def)
  from serverUpdate_partial[OF p f,
      of "\<lparr>in_parsingPath = None, in_name = Some ''X'', in_displayName = None\<rparr>"]
  obtain server' ctx' where
    "serverUpdate ex_ctx ''c1'' ''s1''
        \<lparr>in_parsingPath = None, in_name = Some ''X'', in_displayName = None\<rparr> = Inr (server', ctx')"
    "srv_name server' = ''X'' \<and> srv_displayName server' = Some ''B'' \<and> srv_parsingPath server' = ''C''"
    using v by auto
  then show ?thesis using p f v by blast
qed

text \<open>
  C5. A call of \<open>updateServerMetadata\<close> whose campaign and server exist succeeds and
  stores the server it returns. With only \<open>serverType\<close> given, the display name of the
  server, of every beacon and of every host is as before; with only
  \<open>serverDisplayName\<close> given, the type in the server's metadata is as before.
\<close>

theorem updateServerMetadata_frame:
  assumes "projects ctx campaignId = Some em"
    and "findOne srv_id (server_rows em) serverId = Some found"
  shows "(\<exists>server' ctx' em'.
       updateServerMetadata truthy ctx serverId campaignId None (Some serverType) = Inr (server', ctx') \<and>
       projects ctx' campaignId = Some em' \<and>
       findOne srv_id (server_rows em') serverId = Some server' \<and>
       srv_displayName server' = srv_displayName found \<and>
       map bcn_displayName (beacon_rows em') = map bcn_displayName (beacon_rows em) \<and>
       map host_displayName (host_rows em') = map host_displayName (host_rows em)) \<and>
     (\<exists>server' ctx' em'.
       updateServerMetadata truthy ctx serverId campaignId (Some serverDisplayName) None = Inr (server', ctx') \<and>
       projects ctx' campaignId = Some em' \<and>
       findOne srv_id (server_rows em') serverId = Some server' \<and>
       meta_type (srv_meta server') = meta_type (srv_meta found))"
proof -
  have key: "srv_id found = serverId" using findOne_key[OF assms(2)] by simp
  have stored: "findOne srv_id (server_rows (persistAndFlush s db)) serverId = Some s"
    if "srv_id s = serverId" "server_rows db = server_rows em" for s :: "'a Server" and db
    using findOne_nativeUpdate_const[OF assms(2), of s] that
    by (simp add: persistAndFlush_def)
  have proj: "projects (flushed campaignId db ctx) campaignId = Some db" for db
    by (simp add: flushed_def)
  let ?s1 = "if truthy serverType then found\<lparr>srv_meta := (srv_meta found)\<lparr>meta_type := serverType\<rparr>\<rparr> else found"
  have r1: "updateServerMetadata truthy ctx serverId campaignId None (Some serverType) =
      Inr (?s1, flushed campaignId (persistAndFlush ?s1 em) ctx)"
    using assms
    by (simp add: updateServerMetadata_def connectToProjectEmOrFail_def findOneOrFail_def Let_def)
  have first: "\<exists>server' ctx' em'.
       updateServerMetadata truthy ctx serverId campaignId None (Some serverType) = Inr (server', ctx') \<and>
       projects ctx' campaignId = Some em' \<and>
       findOne srv_id (server_rows em') serverId = Some server' \<and>
       srv_displayName server' = srv_displayName found \<and>
       map bcn_displayName (beacon_rows em') = map bcn_displayName (beacon_rows em) \<and>
       map host_displayName (host_rows em') = map host_displayName (host_rows em)"
    apply (rule exI[of _ ?s1], rule exI[of _ "flushed campaignId (persistAndFlush ?s1 em) ctx"],
        rule exI[of _ "persistAndFlush ?s1 em"])
    apply (intro conjI)
         apply (rule r1)
        apply (rule proj)
       apply (rule stored)
        apply (simp add: key)
       apply simp
      apply simp
     apply (simp add: persistAndFlush_def)
    apply (simp add: persistAndFlush_def)
    done
  obtain s2 db2 where r2: "updateServerMetadata truthy ctx serverId campaignId (Some serverDisplayName) None =
      Inr (s2, flushed campaignId (persistAndFlush s2 db2) ctx)"
     and s2: "srv_id s2 = serverId" "meta_type (srv_meta s2) = meta_type (srv_meta found)"
     and db2: "server_rows db2 = server_rows em"
    using assms key
    by (cases "serverDisplayName = []")
       (simp_all add: updateServerMetadata_def connectToProjectEmOrFail_def findOneOrFail_def
          Let_def when_truthy_def)
  have second: "\<exists>server' ctx' em'.
       updateServerMetadata truthy ctx serverId campaignId (Some serverDisplayName) None = Inr (server', ctx') \<and>
       projects ctx' campaignId = Some em' \<and>
       findOne srv_id (server_rows em') serverId = Some server' \<and>
       meta_type (srv_meta server') = meta_type (srv_meta found)"
    apply (rule exI[of _ s2], rule exI[of _ "flushed campaignId (persistAndFlush s2 db2) ctx"],
        rule exI[of _ "persistAndFlush s2 db2"])
    apply (intro conjI)
       apply (rule r2)
      apply (rule proj)
     apply (rule stored[OF s2(1) db2])
    apply (rule s2(2))
    done
  from first second show ?thesis by (rule conjI)
qed

theorem updateServerMetadata_frame_witness:
  "projects ex_ctx ''c1'' = Some ex_em \<and>
   findOne srv_id (server_rows ex_em) ''s1'' = Some ex_server1 \<and>
   (\<exists>server' ctx' em'.
       updateServerMetadata (\<lambda>t. t \<noteq> []) ex_ctx ''s1'' ''c1'' None (Some ''https'') = Inr (server', ctx') \<and>
       projects ctx' ''c1'' = Some em' \<and>
       findOne srv_id (server_rows em') ''s1'' = Some server' \<and>
       srv_displayName server' = srv_displayName ex_server1 \<and>
       map bcn_displayName (beacon_rows em') = map bcn_displayName (beacon_rows ex_em) \<and>
       map host_displayName (host_rows em') = map host_displayName (host_rows ex_em)) \<and>
   (\<exists>server' ctx' em'.
       updateServerMetadata (\<lambda>t. t \<noteq> []) ex_ctx ''s1'' ''c1'' (Some ''team server'') None = Inr (server', ctx') \<and>
       projects ctx' ''c1'' = Some em' \<and>
       findOne srv_id (server_rows em') ''s1'' = Some server' \<and>
       meta_type (srv_meta server') = meta_type (srv_meta ex_server1))"
proof -
  have p: "projects ex_ctx ''c1'' = Some ex_em"
    by (simp add: ex_ctx_def)
  have f: "findOne srv_id (server_rows ex_em) ''s1'' = Some ex_server1"
    by (simp add: findOne_def ex_em_def ex_server1_def)
  show ?thesis
    using p f updateServerMetadata_frame[OF p f, of "\<lambda>t. t \<noteq> []" "''https''" "''team server''"]
    by (simp only: simp_thms)
qed

section \<open>Claims about the endpoint\<close>

text \<open>
  C6. The guard on the parser name reads a property of the object \<open>parserInfo\<close>, and the
  read also finds what every object inherits. With \<open>cobalt-strike-parser\<close> the only
  parser installed, neither \<open>constructor\<close> nor \<open>toString\<close> names a parser; yet a request
  for \<open>constructor\<close> with a file is not answered with status 400: the directory is made,
  the file is moved, the parser is invoked and the answer has status 200; and a request
  for \<open>toString\<close> without files is answered with status 500. A request for \<open>nmap\<close>,
  which is neither installed nor inherited, is answered with status 400 and the message
  that names it, and a request for the installed parser without files with status 500 and
  \<open>No files provided\<close>, both without any effect.
\<close>

theorem parserFileValidation_inherited_names:
  "ex_parserInfo (js ''constructor'') = None \<and>
   ex_parserInfo (js ''toString'') = None \<and>
   parserFileValidation ex_parserInfo ex_invokeParser (js ''/tmp/redeye1'') ex_request_constructor =
     (Response 200 (Payload ''valid''),
      [MkTempDir (js ''/tmp/redeye1''),
       MoveFile (js ''a.log'') (js ''/tmp/redeye1/a.log''),
       InvokeParser (js ''constructor'')
         [js ''validate-files'', js ''--folder'', js ''/tmp/redeye1/a.log''],
       RmTempDir (js ''/tmp/redeye1'')]) \<and>
   parserFileValidation ex_parserInfo ex_invokeParser (js ''/tmp/redeye1'') ex_request_toString =
     (Response 500 (Msg (js ''No files provided'')), []) \<and>
   parserFileValidation ex_parserInfo ex_invokeParser (js ''/tmp/redeye1'') ex_request_unknown =
     (Response 400 (Msg (js ''Parser nmap is not available'')), []) \<and>
   parserFileValidation ex_parserInfo ex_invokeParser (js ''/tmp/redeye1'') ex_request_no_files =
     (Response 500 (Msg (js ''No files provided'')), [])"
  by (simp add: ex_request_defs eval_defs)

text \<open>
  C7. A request whose parser name passes the guard and that carries files makes the
  temporary directory first and removes it last, once each, whatever the callback does in
  between: the parser reports, the parser fails, or reading the files throws. The parser
  is invoked, if at all, in between.
\<close>

theorem parserFileValidation_one_temp_dir:
  assumes "get_property parserInfo (req_parserName req) = Some parser"
    and "req_files req = Some uploaded"
  shows "\<exists>inside. snd (parserFileValidation parserInfo invokeParser dir req) =
           [MkTempDir dir] @ inside @ [RmTempDir dir] \<and>
         (\<forall>e \<in> set inside. \<forall>d. e \<noteq> MkTempDir d \<and> e \<noteq> RmTempDir d)"
  using parserFileValidation_staged[of parserInfo req parser uploaded invokeParser dir] assms
    stage_and_validate_effects by blast

theorem parserFileValidation_one_temp_dir_witness:
  "get_property ex_parserInfo (req_parserName ex_request) = Some (Own ()) \<and>
   req_files ex_request = Some [js ''file'' \<mapsto> FileArray [ex_file1, ex_file2]] \<and>
   (\<exists>inside. snd (parserFileValidation ex_parserInfo ex_invokeParser (js ''/tmp/redeye 1'') ex_request) =
           [MkTempDir (js ''/tmp/redeye 1'')] @ inside @ [RmTempDir (js ''/tmp/redeye 1'')] \<and>
         (\<forall>e \<in> set inside. \<forall>d. e \<noteq> MkTempDir d \<and> e \<noteq> RmTempDir d)) \<and>
   parserFileValidation ex_parserInfo ex_invokeParser (js ''/tmp/redeye 1'') ex_request =
     (Response 200 (Payload ''valid''),
      [MkTempDir (js ''/tmp/redeye 1''),
       MoveFile (js ''my logs:200101:beacon_1.log'') (js ''/tmp/redeye 1/my logs/200101/beacon_1.log''),
       MoveFile (js ''my logs:200101:events.log'') (js ''/tmp/redeye 1/my logs/200101/events.log''),
       InvokeParser (js ''cobalt-strike-parser'')
         [js ''validate-files'', js ''--folder'',
          js ''/tmp/redeye'' @ [unit_of (CHR 0x5C)] @ js '' 1/my'' @ [unit_of (CHR 0x5C)] @ js '' logs''],
       RmTempDir (js ''/tmp/redeye 1'')]) \<and>
   parserFileValidation ex_parserInfo ex_failingParser (js ''/tmp/redeye1'') ex_request =
     (Unhandled ParserError,
      [MkTempDir (js ''/tmp/redeye1''),
       MoveFile (js ''my logs:200101:beacon_1.log'') (js ''/tmp/redeye1/my logs/200101/beacon_1.log''),
       MoveFile (js ''my logs:200101:events.log'') (js ''/tmp/redeye1/my logs/200101/events.log''),
       InvokeParser (js ''cobalt-strike-parser'')
         [js ''validate-files'', js ''--folder'', js ''/tmp/redeye1/my'' @ [unit_of (CHR 0x5C)] @ js '' logs''],
       RmTempDir (js ''/tmp/redeye1'')]) \<and>
   parserFileValidation ex_parserInfo ex_invokeParser (js ''/tmp/redeye1'') ex_request_other_field =
     (Unhandled TypeError, [MkTempDir (js ''/tmp/redeye1''), RmTempDir (js ''/tmp/redeye1'')])"
proof -
  have k: "get_property ex_parserInfo (req_parserName ex_request) = Some (Own ())"
    by (simp add: ex_request_defs get_property_def)
  have f: "req_files ex_request = Some [js ''file'' \<mapsto> FileArray [ex_file1, ex_file2]]"
    by (simp add: ex_request_defs)
  have reports: "parserFileValidation ex_parserInfo ex_invokeParser (js ''/tmp/redeye 1'') ex_request =
     (Response 200 (Payload ''valid''),
      [MkTempDir (js ''/tmp/redeye 1''),
       MoveFile (js ''my logs:200101:beacon_1.log'') (js ''/tmp/redeye 1/my logs/200101/beacon_1.log''),
       MoveFile (js ''my logs:200101:events.log'') (js ''/tmp/redeye 1/my logs/200101/events.log''),
       InvokeParser (js ''cobalt-strike-parser'')
         [js ''validate-files'', js ''--folder'',
          js ''/tmp/redeye'' @ [unit_of (CHR 0x5C)] @ js '' 1/my'' @ [unit_of (CHR 0x5C)] @ js '' logs''],
       RmTempDir (js ''/tmp/redeye 1'')])"
    by (simp add: ex_request_defs eval_defs)
  have failing: "parserFileValidation ex_parserInfo ex_failingParser (js ''/tmp/redeye1'') ex_request =
     (Unhandled ParserError,
      [MkTempDir (js ''/tmp/redeye1''),
       MoveFile (js ''my logs:200101:beacon_1.log'') (js ''/tmp/redeye1/my logs/200101/beacon_1.log''),
       MoveFile (js ''my logs:200101:events.log'') (js ''/tmp/redeye1/my logs/200101/events.log''),
       InvokeParser (js ''cobalt-strike-parser'')
         [js ''validate-files'', js ''--folder'', js ''/tmp/redeye1/my'' @ [unit_of (CHR 0x5C)] @ js '' logs''],
       RmTempDir (js ''/tmp/redeye1'')])"
    by (simp add: ex_request_defs eval_defs)
  have thrown: "parserFileValidation ex_parserInfo ex_invokeParser (js ''/tmp/redeye1'') ex_request_other_field =
     (Unhandled TypeError, [MkTempDir (js ''/tmp/redeye1''), RmTempDir (js ''/tmp/redeye1'')])"
    by (simp add: ex_request_defs eval_defs)
  from parserFileValidation_one_temp_dir[of ex_parserInfo ex_request "Own ()" _ ex_invokeParser
      "js ''/tmp/redeye 1''", OF k f]
  show ?thesis using k f reports failing thrown by (simp only: simp_thms)
qed

text \<open>
  C8. The handler joins each normalized name to the temporary directory and does not look
  at the segments of the name. A file named \<open>..:evil.log\<close> is normalized to
  \<open>../evil.log\<close>; with the temporary directory \<open>/tmp/redeye1\<close> it is moved to
  \<open>/tmp/evil.log\<close>, which is not under the temporary directory, and the parser is
  invoked with the folder \<open>/tmp\<close>.
\<close>

theorem parserFileValidation_dotdot_escapes:
  "get_property ex_parserInfo (req_parserName ex_request_dotdot) = Some (Own ()) \<and>
   req_files ex_request_dotdot =
     Some [js ''file'' \<mapsto> OneFile \<lparr>file_name = js ''..:evil.log''\<rparr>] \<and>
   replace_colons (js ''..:evil.log'') = js ''../evil.log'' \<and>
   parserFileValidation ex_parserInfo ex_invokeParser (js ''/tmp/redeye1'') ex_request_dotdot =
     (Response 200 (Payload ''valid''),
      [MkTempDir (js ''/tmp/redeye1''),
       MoveFile (js ''..:evil.log'') (js ''/tmp/evil.log''),
       InvokeParser (js ''cobalt-strike-parser'') [js ''validate-files'', js ''--folder'', js ''/tmp''],
       RmTempDir (js ''/tmp/redeye1'')]) \<and>
   take (length (js ''/tmp/redeye1'')) (js ''/tmp/evil.log'') \<noteq> js ''/tmp/redeye1''"
  by (simp add: ex_request_defs eval_defs)

section \<open>Claims about CommentsList\<close>

text \<open>
  C9, as stated, fails: the title is computed from the item's key, not from its id. An
  item with id \<open>user-alice\<close> and key \<open>user-bob\<close> is rendered with the title \<open>bob\<close>.
\<close>

theorem CommentsList_title_counterexample:
  "item_id ex_item_bob = ''user-alice'' \<and>
   CommentsList [ex_item_bob] =
     [\<lparr>row_icons = [User16], row_icon_disabled = False, row_bold = False, row_muted = False,
       row_italic = False, row_title = ''bob'', row_commands = 3, row_comments = 2\<rparr>] \<and>
   ''bob'' \<noteq> ''alice''"
  by (simp add: ex_item_bob_def CommentsList_def render_row_def getIcon_def rowTitle_def)

text \<open>
  C9, amended. Every item is rendered as one row. An item with id \<open>favorited\<close> has bold
  text and the star icon; an item with id \<open>procedural\<close> has muted and italic text and
  exactly one leading icon, the playlist icon; an item with key \<open>user-alice\<close> has the
  title \<open>alice\<close>. Every item but \<open>all\<close> has one leading icon, chosen from its id: star
  for \<open>favorited\<close>, playlist for \<open>procedural\<close>, person for a prefix \<open>user-\<close>, hash
  otherwise. The title is the item's key without a leading \<open>#\<close> or a leading prefix
  \<open>user-\<close>.
\<close>

theorem CommentsList_rendering:
  "CommentsList items = map render_row items \<and>
   (\<forall>item \<in> set items.
      (item_id item = ''favorited'' \<longrightarrow>
         row_bold (render_row item) \<and> row_icons (render_row item) = [StarFilled16]) \<and>
      (item_id item = ''procedural'' \<longrightarrow>
         row_muted (render_row item) \<and> row_italic (render_row item) \<and>
         row_icons (render_row item) = [Playlist16]) \<and>
      (item_key item = ''user-alice'' \<longrightarrow> row_title (render_row item) = ''alice'') \<and>
      (item_id item \<noteq> ''all'' \<longrightarrow> row_icons (render_row item) = [getIcon (item_id item)]) \<and>
      (item_id item = ''favorited'' \<longrightarrow> getIcon (item_id item) = StarFilled16) \<and>
      (item_id item = ''procedural'' \<longrightarrow> getIcon (item_id item) = Playlist16) \<and>
      (item_id item \<noteq> ''favorited'' \<and> item_id item \<noteq> ''procedural'' \<and>
         (\<exists>t. item_id item = ''user-'' @ t) \<longrightarrow> getIcon (item_id item) = User16) \<and>
      (item_id item \<noteq> ''favorited'' \<and> item_id item \<noteq> ''procedural'' \<and>
         \<not> (\<exists>t. item_id item = ''user-'' @ t) \<longrightarrow> getIcon (item_id item) = Hashtag16) \<and>
      (\<forall>t. item_key item = CHR ''#'' # t \<longrightarrow> row_title (render_row item) = t) \<and>
      (\<forall>t. item_key item = ''user-'' @ t \<longrightarrow> row_title (render_row item) = t) \<and>
      (\<not> (\<exists>t. item_key item = CHR ''#'' # t) \<and> \<not> (\<exists>t. item_key item = ''user-'' @ t) \<longrightarrow>
         row_title (render_row item) = item_key item))"
proof -
  have user: "(take 5 s = ''user-'') = (\<exists>t. s = ''user-'' @ t)" for s
    by (rule take_prefix_iff) simp
  have hash: "(take 1 s = ''#'') = (\<exists>t. s = CHR ''#'' # t)" for s
    using take_prefix_iff[of "''#''" 1 s] by simp
  have icon: "(item_id item = ''favorited'' \<longrightarrow>
         row_bold (render_row item) \<and> row_icons (render_row item) = [StarFilled16]) \<and>
      (item_id item = ''procedural'' \<longrightarrow>
         row_muted (render_row item) \<and> row_italic (render_row item) \<and>
         row_icons (render_row item) = [Playlist16]) \<and>
      (item_id item \<noteq> ''all'' \<longrightarrow> row_icons (render_row item) = [getIcon (item_id item)]) \<and>
      (item_id item = ''favorited'' \<longrightarrow> getIcon (item_id item) = StarFilled16) \<and>
      (item_id item = ''procedural'' \<longrightarrow> getIcon (item_id item) = Playlist16) \<and>
      (item_id item \<noteq> ''favorited'' \<and> item_id item \<noteq> ''procedural'' \<and>
         (\<exists>t. item_id item = ''user-'' @ t) \<longrightarrow> getIcon (item_id item) = User16) \<and>
      (item_id item \<noteq> ''favorited'' \<and> item_id item \<noteq> ''procedural'' \<and>
         \<not> (\<exists>t. item_id item = ''user-'' @ t) \<longrightarrow> getIcon (item_id item) = Hashtag16)" for item
    unfolding user[symmetric] by (simp add: render_row_def getIcon_def)
  have title: "(item_key item = ''user-alice'' \<longrightarrow> row_title (render_row item) = ''alice'') \<and>
      (\<forall>t. item_key item = CHR ''#'' # t \<longrightarrow> row_title (render_row item) = t) \<and>
      (\<forall>t. item_key item = ''user-'' @ t \<longrightarrow> row_title (render_row item) = t) \<and>
      (\<not> (\<exists>t. item_key item = CHR ''#'' # t) \<and> \<not> (\<exists>t. item_key item = ''user-'' @ t) \<longrightarrow>
         row_title (render_row item) = item_key item)" for item
    unfolding user[symmetric] hash[symmetric]
    by (auto simp: render_row_def rowTitle_def)
  show ?thesis
    using icon title by (simp add: CommentsList_def)
qed

theorem CommentsList_rendering_witness:
  "ex_item_favorited \<in> set ex_items \<and> item_id ex_item_favorited = ''favorited'' \<and>
   row_bold (render_row ex_item_favorited) \<and>
   row_icons (render_row ex_item_favorited) = [StarFilled16] \<and>
   ex_item_procedural \<in> set ex_items \<and> item_id ex_item_procedural = ''procedural'' \<and>
   row_muted (render_row ex_item_procedural) \<and> row_italic (render_row ex_item_procedural) \<and>
   row_icons (render_row ex_item_procedural) = [Playlist16] \<and>
   ex_item_alice \<in> set ex_items \<and> item_key ex_item_alice = ''user-alice'' \<and>
   row_title (render_row ex_item_alice) = ''alice'' \<and>
   CommentsList ex_items = map render_row ex_items"
proof -
  have m: "ex_item_favorited \<in> set ex_items" "ex_item_procedural \<in> set ex_items"
    "ex_item_alice \<in> set ex_items"
    by (simp_all add: ex_items_def)
  have v: "item_id ex_item_favorited = ''favorited''" "item_id ex_item_procedural = ''procedural''"
    "item_key ex_item_alice = ''user-alice''"
    by (simp_all add: ex_item_favorited_def ex_item_procedural_def ex_item_alice_def)
  note all = CommentsList_rendering[of ex_items]
  from all have rows: "CommentsList ex_items = map render_row ex_items" by (rule conjunct1)
  from all m(1) v(1) have fav: "row_bold (render_row ex_item_favorited) \<and>
      row_icons (render_row ex_item_favorited) = [StarFilled16]" by blast
  from all m(2) v(2) have proc: "row_muted (render_row ex_item_procedural) \<and>
      row_italic (render_row ex_item_procedural) \<and>
      row_icons (render_row ex_item_procedural) = [Playlist16]" by blast
  from all m(3) v(3) have alice: "row_title (render_row ex_item_alice) = ''alice''" by blast
  from m v rows fav proc alice show ?thesis by (simp only: simp_thms)
qed

end
